theory Spec2Isabelle
  imports Main "HOL-Library.Sublist"
begin

section \<open>Python values and exceptions\<close>

text \<open>
  The values that \<^verbatim>\<open>json.loads\<close> and \<^verbatim>\<open>response.json()\<close> hand to \<^verbatim>\<open>agent.py\<close>:
  \<^verbatim>\<open>None\<close>, \<^verbatim>\<open>bool\<close>, \<^verbatim>\<open>int\<close> (unbounded), \<^verbatim>\<open>float\<close>, \<^verbatim>\<open>str\<close>, \<^verbatim>\<open>list\<close> and \<^verbatim>\<open>dict\<close> with
  string keys. Strings are UTF-8 byte lists. A float is kept as its \<^verbatim>\<open>repr()\<close>, which
  identifies it; the only thing the source does with a float is to format it and to test
  its truth value. A dict is an association list read with \<^const>\<open>map_of\<close>.
\<close>

datatype py_value =
    PyNone
  | PyBool bool
  | PyInt int
  | PyFloat string
  | PyStr string
  | PyList "py_value list"
  | PyDict "(string \<times> py_value) list"

text \<open>
  Exceptions derived from \<^verbatim>\<open>Exception\<close>, by class. \<open>TwirpError message text\<close> is
  \<^verbatim>\<open>api.TwirpError\<close> with its \<^verbatim>\<open>message\<close> attribute and its \<^verbatim>\<open>str()\<close>; every other
  constructor carries \<^verbatim>\<open>str(e)\<close>, and \<open>OtherException\<close> the class name as well.
\<close>

datatype py_error =
    TwirpError string string
  | JSONDecodeError string
  | AttributeError string
  | TypeError string
  | KeyError string
  | IndexError string
  | OtherException string string

fun exc_str :: "py_error \<Rightarrow> string" where
  "exc_str (TwirpError message text) = text"
| "exc_str (JSONDecodeError text) = text"
| "exc_str (AttributeError text) = text"
| "exc_str (TypeError text) = text"
| "exc_str (KeyError text) = text"
| "exc_str (IndexError text) = text"
| "exc_str (OtherException cls text) = text"

fun is_TwirpError :: "py_error \<Rightarrow> bool" where
  "is_TwirpError (TwirpError message text) = True"
| "is_TwirpError e = False"

fun is_JSONDecodeError :: "py_error \<Rightarrow> bool" where
  "is_JSONDecodeError (JSONDecodeError text) = True"
| "is_JSONDecodeError e = False"

fun twirp_message :: "py_error \<Rightarrow> string" where
  "twirp_message (TwirpError message text) = message"
| "twirp_message e = exc_str e"

definition quoted :: "string \<Rightarrow> string" where
  "quoted s = CHR 0x27 # s @ [CHR 0x27]"

fun type_name :: "py_value \<Rightarrow> string" where
  "type_name PyNone = ''NoneType''"
| "type_name (PyBool b) = ''bool''"
| "type_name (PyInt i) = ''int''"
| "type_name (PyFloat r) = ''float''"
| "type_name (PyStr s) = ''str''"
| "type_name (PyList xs) = ''list''"
| "type_name (PyDict kvs) = ''dict''"

text \<open>Truth value of a Python object (\<^verbatim>\<open>if x:\<close>, \<^verbatim>\<open>not x\<close>).\<close>

fun truthy :: "py_value \<Rightarrow> bool" where
  "truthy PyNone = False"
| "truthy (PyBool b) = b"
| "truthy (PyInt i) = (i \<noteq> 0)"
| "truthy (PyFloat r) = (r \<noteq> ''0.0'' \<and> r \<noteq> ''-0.0'')"
| "truthy (PyStr s) = (s \<noteq> [])"
| "truthy (PyList xs) = (xs \<noteq> [])"
| "truthy (PyDict kvs) = (kvs \<noteq> [])"

text \<open>Truth value of what \<^verbatim>\<open>os.environ.get\<close> and \<^verbatim>\<open>getattr(.., None)\<close> return.\<close>

fun truthy_opt :: "string option \<Rightarrow> bool" where
  "truthy_opt None = False"
| "truthy_opt (Some s) = (s \<noteq> [])"

text \<open>\<^verbatim>\<open>a or b\<close>.\<close>

definition py_or :: "string option \<Rightarrow> string option \<Rightarrow> string option" where
  "py_or a b = (if truthy_opt a then a else b)"

fun str_opt :: "string option \<Rightarrow> string" where
  "str_opt None = ''None''"
| "str_opt (Some s) = s"

text \<open>\<^verbatim>\<open>str()\<close> of an int: decimal digits, with a sign.\<close>

fun str_nat :: "nat \<Rightarrow> string" where
  "str_nat n =
     (if n < 10 then [''0123456789'' ! n]
      else str_nat (n div 10) @ [''0123456789'' ! (n mod 10)])"

definition str_int :: "int \<Rightarrow> string" where
  "str_int i = (if i < 0 then CHR ''-'' # str_nat (nat (- i)) else str_nat (nat i))"

text \<open>
  \<^verbatim>\<open>str()\<close> of a value, as an f-string field \<^verbatim>\<open>{v}\<close> formats it. The text of a list
  or a dict (the \<^verbatim>\<open>repr()\<close> of its elements, with Python's quoting rules) is left to the
  runtime: the parameter \<open>container_str\<close>.
\<close>

fun py_str :: "(py_value \<Rightarrow> string) \<Rightarrow> py_value \<Rightarrow> string" where
  "py_str container_str PyNone = ''None''"
| "py_str container_str (PyBool b) = (if b then ''True'' else ''False'')"
| "py_str container_str (PyInt i) = str_int i"
| "py_str container_str (PyFloat r) = r"
| "py_str container_str (PyStr s) = s"
| "py_str container_str (PyList xs) = container_str (PyList xs)"
| "py_str container_str (PyDict kvs) = container_str (PyDict kvs)"

text \<open>\<^verbatim>\<open>k in s\<close> for two strings: \<open>k\<close> occurs in \<open>s\<close> as a contiguous block.\<close>

fun is_substring :: "string \<Rightarrow> string \<Rightarrow> bool" where
  "is_substring k [] = (k = [])"
| "is_substring k (c # cs) = (if prefix k (c # cs) then True else is_substring k cs)"

text \<open>\<^verbatim>\<open>k in data\<close> for a string \<open>k\<close>.\<close>

fun py_contains :: "string \<Rightarrow> py_value \<Rightarrow> py_error + bool" where
  "py_contains k (PyDict kvs) = Inr (k \<in> set (map fst kvs))"
| "py_contains k (PyList xs) = Inr (PyStr k \<in> set xs)"
| "py_contains k (PyStr s) = Inr (is_substring k s)"
| "py_contains k v =
     Inl (TypeError (''argument of type '' @ quoted (type_name v) @ '' is not iterable''))"

text \<open>\<^verbatim>\<open>data[k]\<close> for a string \<open>k\<close>.\<close>

fun py_getitem :: "py_value \<Rightarrow> string \<Rightarrow> py_error + py_value" where
  "py_getitem (PyDict kvs) k =
     (case map_of kvs k of None \<Rightarrow> Inl (KeyError (quoted k)) | Some v \<Rightarrow> Inr v)"
| "py_getitem (PyList xs) k =
     Inl (TypeError ''list indices must be integers or slices, not str'')"
| "py_getitem (PyStr s) k =
     Inl (TypeError (''string indices must be integers, not '' @ quoted ''str''))"
| "py_getitem v k =
     Inl (TypeError (quoted (type_name v) @ '' object is not subscriptable''))"

definition utf8_continuation :: "char \<Rightarrow> bool" where
  "utf8_continuation c = (128 \<le> (of_char c :: nat) \<and> (of_char c :: nat) < 192)"

text \<open>\<^verbatim>\<open>data[0]\<close>. The first item of a string is its first code point.\<close>

fun py_getitem0 :: "py_value \<Rightarrow> py_error + py_value" where
  "py_getitem0 (PyList []) = Inl (IndexError ''list index out of range'')"
| "py_getitem0 (PyList (x # xs)) = Inr x"
| "py_getitem0 (PyStr []) = Inl (IndexError ''string index out of range'')"
| "py_getitem0 (PyStr (c # cs)) = Inr (PyStr (c # takeWhile utf8_continuation cs))"
| "py_getitem0 (PyDict kvs) = Inl (KeyError ''0'')"
| "py_getitem0 v = Inl (TypeError (quoted (type_name v) @ '' object is not subscriptable''))"

text \<open>\<^verbatim>\<open>metadata.get(k)\<close>: only a dict has the method.\<close>

fun py_get :: "py_value \<Rightarrow> string \<Rightarrow> py_error + py_value" where
  "py_get (PyDict kvs) k = Inr (case map_of kvs k of None \<Rightarrow> PyNone | Some v \<Rightarrow> v)"
| "py_get v k =
     Inl (AttributeError (quoted (type_name v) @ '' object has no attribute '' @ quoted ''get''))"

section \<open>Requests, events and the world outside the process\<close>

record egress_request =
  eg_room_name :: string
  eg_audio_only :: bool
  eg_file_type :: string
  eg_filepath :: string
  s3_access_key :: "string option"
  s3_secret :: "string option"
  s3_region :: string
  s3_bucket :: string

text \<open>What \<^verbatim>\<open>getattr(egress_info, name, None)\<close> finds: \<open>None\<close> for a missing attribute.\<close>

record egress_info =
  egress_id :: "string option"
  egressId :: "string option"

record sip_request =
  sip_room_name :: string
  sip_trunk_id :: string
  sip_call_to :: string
  participant_identity :: string
  wait_until_answered :: bool

datatype plugin =
    Cartesia_STT string
  | Google_LLM string
  | Rime_TTS string string
  | Silero_VAD
  | EnglishModel
  | BVCTelephony

record agent_session =
  stt :: plugin
  llm :: plugin
  tts :: plugin
  vad :: plugin
  turn_detection :: plugin

record start_args =
  start_room :: string
  start_agent :: string
  start_noise_cancellation :: plugin

record http_response =
  status :: int
  json :: "py_error + py_value"

text \<open>
  Every call that leaves \<^verbatim>\<open>agent.py\<close>, in the order the calls are made. \<open>Print\<close> is the
  log; \<open>NewAgentSession\<close> is the construction of the Session, \<open>SessionStart\<close> its start,
  \<open>GenerateReply\<close> the greeting request, \<open>CreateSIPParticipant\<close> the dial.
\<close>

datatype event =
    Connect
  | NewLiveKitAPI
  | Print string
  | StartRoomCompositeEgress egress_request
  | AClose
  | CreateSIPParticipant sip_request
  | Shutdown
  | New plugin
  | NewAgentSession agent_session
  | NewAssistant string
  | SessionStart start_args
  | GenerateReply string
  | HttpGet string

text \<open>
  The behaviour of everything outside the file: the process environment
  (\<^verbatim>\<open>os.environ.get\<close>), the Python runtime and the libraries. A field is the outcome of
  the call expression of that name as the source writes it (with its \<^verbatim>\<open>await\<close>): it
  returns (\<open>Inr\<close>) or raises (\<open>Inl\<close>). \<open>LiveKitAPI\<close> is \<^verbatim>\<open>api.LiveKitAPI()\<close>,
  \<open>plugin_init\<close> the constructor of a plugin object, \<open>AgentSession\<close> the constructor
  of the Session, \<open>Agent_init\<close> the \<^verbatim>\<open>super().__init__\<close> of \<^verbatim>\<open>Assistant\<close>,
  \<open>http_get\<close> the request of \<^verbatim>\<open>session.get(url)\<close> in a fresh client session, and
  \<open>json\<close> of a response the outcome of \<^verbatim>\<open>await response.json()\<close>.
\<close>

record world =
  environ :: "string \<Rightarrow> string option"
  container_str :: "py_value \<Rightarrow> string"
  json_loads :: "string \<Rightarrow> py_error + py_value"
  http_get :: "string \<Rightarrow> py_error + http_response"
  connect :: "py_error + unit"
  LiveKitAPI :: "py_error + unit"
  start_room_composite_egress :: "egress_request \<Rightarrow> py_error + egress_info"
  aclose :: "py_error + unit"
  create_sip_participant :: "sip_request \<Rightarrow> py_error + unit"
  shutdown :: "py_error + unit"
  plugin_init :: "plugin \<Rightarrow> py_error + unit"
  AgentSession :: "agent_session \<Rightarrow> py_error + unit"
  Agent_init :: "string \<Rightarrow> py_error + unit"
  session_start :: "start_args \<Rightarrow> py_error + unit"
  generate_reply :: "string \<Rightarrow> py_error + unit"

record job_context =
  room_name :: string
  job_metadata :: "string option"

section \<open>Running a coroutine: a result or an exception, and the events so far\<close>

type_synonym 'a run = "(py_error + 'a) \<times> event list"

definition ret :: "'a \<Rightarrow> 'a run" where
  "ret x = (Inr x, [])"

definition lift :: "py_error + 'a \<Rightarrow> 'a run" where
  "lift r = (r, [])"

definition perform :: "event \<Rightarrow> py_error + 'a \<Rightarrow> 'a run" where
  "perform ev r = (r, [ev])"

definition print :: "string \<Rightarrow> unit run" where
  "print s = (Inr (), [Print s])"

definition bind :: "'a run \<Rightarrow> ('a \<Rightarrow> 'b run) \<Rightarrow> 'b run" where
  "bind m f =
     (case m of (r, trace) \<Rightarrow>
        (case r of
           Inl e \<Rightarrow> (Inl e, trace)
         | Inr x \<Rightarrow> (case f x of (r', trace') \<Rightarrow> (r', trace @ trace'))))"

text \<open>\<^verbatim>\<open>try: m except C as e: handler\<close>, where \<open>catches\<close> says which exceptions are a \<open>C\<close>.\<close>

definition try_except :: "'a run \<Rightarrow> (py_error \<Rightarrow> bool) \<Rightarrow> (py_error \<Rightarrow> 'a run) \<Rightarrow> 'a run" where
  "try_except m catches handler =
     (case m of (r, trace) \<Rightarrow>
        (case r of
           Inl e \<Rightarrow>
             if catches e then (case handler e of (r', trace') \<Rightarrow> (r', trace @ trace'))
             else (Inl e, trace)
         | Inr x \<Rightarrow> (Inr x, trace)))"

section \<open>\<^verbatim>\<open>Assistant\<close> and \<^verbatim>\<open>Assistant.get_weather\<close>\<close>

text \<open>Line 30: the instructions that \<^verbatim>\<open>Assistant.__init__\<close> passes on.\<close>

definition Assistant_instructions :: string where
  "Assistant_instructions =
     ''You are a helpful voice AI assistant. You can check the weather in a given location.''"

text \<open>The degree sign of line 63, in UTF-8.\<close>

definition degree_sign :: string where
  "degree_sign = [CHR 0xC2, CHR 0xB0]"

definition weather_url :: "string \<Rightarrow> string \<Rightarrow> string" where
  "weather_url location api_key =
     ''http://api.openweathermap.org/data/2.5/weather?q='' @ location
       @ ''&appid='' @ api_key @ ''&units=metric''"

text \<open>
  Lines 55 to 63: the body of a response with status 200. \<open>fmt\<close> is \<^const>\<open>py_str\<close> with
  the runtime's text of containers.
\<close>

definition weather_sentence :: "(py_value \<Rightarrow> string) \<Rightarrow> string \<Rightarrow> http_response \<Rightarrow> string run" where
  "weather_sentence fmt location response =
     bind (lift (json response)) (\<lambda>data.
     bind (lift (py_contains ''weather'' data)) (\<lambda>present.
     bind (if present
           then bind (lift (py_getitem data ''weather'')) (\<lambda>weather. ret (truthy weather))
           else ret False) (\<lambda>has_weather.
     if has_weather then
       bind (lift (py_getitem data ''weather'')) (\<lambda>weather.
       bind (lift (py_getitem0 weather)) (\<lambda>first.
       bind (lift (py_getitem first ''description'')) (\<lambda>description.
       bind (lift (py_getitem data ''main'')) (\<lambda>main.
       bind (lift (py_getitem main ''temp'')) (\<lambda>temp.
       ret (''The weather in '' @ location @ '' is '' @ fmt description
              @ '' with a temperature of '' @ fmt temp @ degree_sign @ ''C.''))))))
     else ret ''Sorry, I couldn't find any weather data for that location.'')))"

text \<open>
  Lines 44 to 53, then the body above. The function has no \<^verbatim>\<open>try\<close>: an exception of the
  request, of \<^verbatim>\<open>response.json()\<close> or of an index leaves it.
\<close>

definition get_weather :: "world \<Rightarrow> string \<Rightarrow> string run" where
  "get_weather w location =
     (case environ w ''OPENWEATHER_API_KEY'' of
        None \<Rightarrow> ret ''OpenWeather API key is not set.''
      | Some api_key \<Rightarrow>
          if api_key = [] then ret ''OpenWeather API key is not set.''
          else
            bind (perform (HttpGet (weather_url location api_key))
                    (http_get w (weather_url location api_key))) (\<lambda>response.
            if status response \<noteq> 200
            then ret (''Sorry, I couldn't get the weather. Status code: ''
                        @ str_int (status response))
            else weather_sentence (py_str (container_str w)) location response))"

section \<open>\<^verbatim>\<open>entrypoint\<close>\<close>

text \<open>Lines 73 to 99: the recording request, inside \<^verbatim>\<open>try ... except Exception\<close>.\<close>

definition egress_request_of :: "world \<Rightarrow> job_context \<Rightarrow> egress_request" where
  "egress_request_of w ctx =
     \<lparr> eg_room_name = room_name ctx,
       eg_audio_only = True,
       eg_file_type = ''OGG'',
       eg_filepath = room_name ctx @ ''.ogg'',
       s3_access_key = environ w ''AWS_S3_ACCESS_KEY'',
       s3_secret = environ w ''AWS_S3_SECRET_KEY'',
       s3_region = ''eu-north-1'',
       s3_bucket = ''livekit-calls'' \<rparr>"

definition start_egress :: "world \<Rightarrow> job_context \<Rightarrow> unit run" where
  "start_egress w ctx =
     try_except
       (bind (perform NewLiveKitAPI (LiveKitAPI w)) (\<lambda>lkapi.
        bind (print ''Starting room egress...'') (\<lambda>u.
        bind (perform (StartRoomCompositeEgress (egress_request_of w ctx))
                (start_room_composite_egress w (egress_request_of w ctx))) (\<lambda>info.
        bind (perform AClose (aclose w)) (\<lambda>u.
        print (''Egress started successfully. Egress ID: ''
                 @ str_opt (py_or (egress_id info) (egressId info))))))))
       (\<lambda>e. True)
       (\<lambda>e. print (''Error starting egress: '' @ exc_str e))"

text \<open>Lines 102 to 108: the value of the variable \<^verbatim>\<open>phone_number\<close>.\<close>

definition resolve_phone_number :: "world \<Rightarrow> job_context \<Rightarrow> py_value run" where
  "resolve_phone_number w ctx =
     (case job_metadata ctx of
        None \<Rightarrow> ret PyNone
      | Some text \<Rightarrow>
          if text = [] then ret PyNone
          else
            try_except
              (bind (lift (json_loads w text)) (\<lambda>metadata.
               lift (py_get metadata ''phone_number'')))
              is_JSONDecodeError
              (\<lambda>e. bind (print ''Error: Invalid JSON in job metadata'') (\<lambda>u. ret PyNone)))"

text \<open>
  \<^verbatim>\<open>api.CreateSIPParticipantRequest(...)\<close> with the arguments of lines 116 to 120: a
  protobuf message, whose string fields take a \<^verbatim>\<open>str\<close> and raise \<^verbatim>\<open>TypeError\<close> on a
  value of another type (the first argument is \<^verbatim>\<open>ctx.room.name\<close>, a string).
\<close>

definition CreateSIPParticipantRequest :: "string \<Rightarrow> py_value \<Rightarrow> py_error + sip_request" where
  "CreateSIPParticipantRequest room phone_number =
     (case phone_number of
        PyStr number \<Rightarrow>
          Inr \<lparr> sip_room_name = room,
                sip_trunk_id = ''ST_p7QcFHJKXXUM'',
                sip_call_to = number,
                participant_identity = number,
                wait_until_answered = True \<rparr>
      | v \<Rightarrow> Inl (TypeError ''bad argument type for built-in operation''))"

text \<open>
  Lines 112 to 127: the dial. The result says whether \<^verbatim>\<open>entrypoint\<close> goes on (\<open>True\<close>) or
  has returned from the handler (\<open>False\<close>).
\<close>

definition place_call :: "world \<Rightarrow> job_context \<Rightarrow> py_value \<Rightarrow> bool run" where
  "place_call w ctx phone_number =
     bind (print (''Attempting to place outbound call to: ''
                    @ py_str (container_str w) phone_number)) (\<lambda>u.
     try_except
       (bind (lift (CreateSIPParticipantRequest (room_name ctx) phone_number)) (\<lambda>req.
        bind (perform (CreateSIPParticipant req) (create_sip_participant w req)) (\<lambda>u.
        bind (print (''Call to '' @ py_str (container_str w) phone_number @ '' was answered.''))
          (\<lambda>u. ret True))))
       is_TwirpError
       (\<lambda>e. bind (print (''Error creating SIP participant: '' @ twirp_message e)) (\<lambda>u.
            bind (perform Shutdown (shutdown w)) (\<lambda>u. ret False))))"

text \<open>Lines 130 to 153: the Session, its start, and the greeting.\<close>

definition new :: "world \<Rightarrow> plugin \<Rightarrow> plugin run" where
  "new w p = bind (perform (New p) (plugin_init w p)) (\<lambda>u. ret p)"

definition start_session :: "world \<Rightarrow> job_context \<Rightarrow> py_value \<Rightarrow> unit run" where
  "start_session w ctx phone_number =
     bind (new w (Cartesia_STT ''ink-whisper'')) (\<lambda>s.
     bind (new w (Google_LLM ''gemini-2.5-flash'')) (\<lambda>l.
     bind (new w (Rime_TTS ''arcana'' ''astra'')) (\<lambda>t.
     bind (new w Silero_VAD) (\<lambda>v.
     bind (new w EnglishModel) (\<lambda>d.
     bind (perform (NewAgentSession \<lparr> stt = s, llm = l, tts = t, vad = v, turn_detection = d \<rparr>)
             (AgentSession w \<lparr> stt = s, llm = l, tts = t, vad = v, turn_detection = d \<rparr>)) (\<lambda>session.
     bind (perform (NewAssistant Assistant_instructions)
             (Agent_init w Assistant_instructions)) (\<lambda>agent.
     bind (new w BVCTelephony) (\<lambda>nc.
     bind (perform (SessionStart \<lparr> start_room = room_name ctx,
                                   start_agent = Assistant_instructions,
                                   start_noise_cancellation = nc \<rparr>)
             (session_start w \<lparr> start_room = room_name ctx,
                                start_agent = Assistant_instructions,
                                start_noise_cancellation = nc \<rparr>)) (\<lambda>u.
     if truthy phone_number then ret ()
     else perform (GenerateReply ''Greet the user and offer your assistance.'')
            (generate_reply w ''Greet the user and offer your assistance.''))))))))))"

text \<open>Lines 101 to 153: everything after the recording request.\<close>

definition handle_call :: "world \<Rightarrow> job_context \<Rightarrow> unit run" where
  "handle_call w ctx =
     bind (resolve_phone_number w ctx) (\<lambda>phone_number.
     bind (if truthy phone_number then place_call w ctx phone_number else ret True) (\<lambda>proceed.
     if proceed then start_session w ctx phone_number else ret ()))"

definition entrypoint :: "world \<Rightarrow> job_context \<Rightarrow> unit run" where
  "entrypoint w ctx =
     bind (perform Connect (connect w)) (\<lambda>u.
     bind (start_egress w ctx) (\<lambda>u.
     handle_call w ctx))"

section \<open>Reading a run\<close>

text \<open>
  The call intent is the test the source makes on \<^verbatim>\<open>phone_number\<close> (lines 111 and 150):
  outbound when the value is true, inbound when it is not. There is none when resolving
  the phone number raises.
\<close>

datatype call_intent = Inbound | Outbound py_value

definition call_intent :: "world \<Rightarrow> job_context \<Rightarrow> call_intent option" where
  "call_intent w ctx =
     (case fst (resolve_phone_number w ctx) of
        Inl e \<Rightarrow> None
      | Inr phone_number \<Rightarrow>
          Some (if truthy phone_number then Outbound phone_number else Inbound))"

fun is_dial :: "event \<Rightarrow> bool" where
  "is_dial (CreateSIPParticipant req) = True"
| "is_dial ev = False"

fun is_session_construction :: "event \<Rightarrow> bool" where
  "is_session_construction (NewAgentSession s) = True"
| "is_session_construction ev = False"

fun is_session_start :: "event \<Rightarrow> bool" where
  "is_session_start (SessionStart a) = True"
| "is_session_start ev = False"

fun is_greeting :: "event \<Rightarrow> bool" where
  "is_greeting (GenerateReply instructions) = True"
| "is_greeting ev = False"

fun is_shutdown :: "event \<Rightarrow> bool" where
  "is_shutdown Shutdown = True"
| "is_shutdown ev = False"

text \<open>The Session has started: \<^verbatim>\<open>session.start\<close> was called and returned.\<close>

fun start_returned :: "world \<Rightarrow> event \<Rightarrow> bool" where
  "start_returned w (SessionStart a) = (session_start w a = Inr ())"
| "start_returned w ev = False"

definition session_started :: "world \<Rightarrow> event list \<Rightarrow> bool" where
  "session_started w trace = (filter (start_returned w) trace \<noteq> [])"

text \<open>The exception raised inside the \<^verbatim>\<open>try\<close> block of lines 73 to 97, if any.\<close>

definition egress_failure :: "world \<Rightarrow> job_context \<Rightarrow> py_error option" where
  "egress_failure w ctx =
     (case LiveKitAPI w of
        Inl e \<Rightarrow> Some e
      | Inr lkapi \<Rightarrow>
          (case start_room_composite_egress w (egress_request_of w ctx) of
             Inl e \<Rightarrow> Some e
           | Inr info \<Rightarrow> (case aclose w of Inl e \<Rightarrow> Some e | Inr u \<Rightarrow> None)))"

text \<open>The events of lines 130 to 146 when every constructor returns.\<close>

definition session_setup :: "job_context \<Rightarrow> event list" where
  "session_setup ctx =
     [New (Cartesia_STT ''ink-whisper''),
      New (Google_LLM ''gemini-2.5-flash''),
      New (Rime_TTS ''arcana'' ''astra''),
      New Silero_VAD,
      New EnglishModel,
      NewAgentSession \<lparr> stt = Cartesia_STT ''ink-whisper'', llm = Google_LLM ''gemini-2.5-flash'',
                        tts = Rime_TTS ''arcana'' ''astra'', vad = Silero_VAD,
                        turn_detection = EnglishModel \<rparr>,
      NewAssistant Assistant_instructions,
      New BVCTelephony,
      SessionStart \<lparr> start_room = room_name ctx, start_agent = Assistant_instructions,
                     start_noise_cancellation = BVCTelephony \<rparr>]"

section \<open>Concrete worlds\<close>

text \<open>
  A world in which every call returns, no variable is set in the environment, and the
  weather provider cannot be reached. \<open>example_loads\<close> is \<^verbatim>\<open>json.loads\<close> on the metadata
  texts used below.
\<close>

definition example_loads :: "string \<Rightarrow> py_error + py_value" where
  \<open>example_loads text =
     (if text = ''{"phone_number": "+15550100"}''
      then Inr (PyDict [(''phone_number'', PyStr ''+15550100'')])
      else if text = ''{"phone_number": ""}''
      then Inr (PyDict [(''phone_number'', PyStr [])])
      else if text = ''[]''
      then Inr (PyList [])
      else Inl (JSONDecodeError ''Expecting value: line 1 column 1 (char 0)''))\<close>

definition quiet_world :: world where
  "quiet_world =
     \<lparr> environ = (\<lambda>name. None),
       container_str = (\<lambda>v. ''[]''),
       json_loads = example_loads,
       http_get = (\<lambda>url. Inl (OtherException ''ClientConnectorError'' ''Cannot connect to host'')),
       connect = Inr (),
       LiveKitAPI = Inr (),
       start_room_composite_egress = (\<lambda>req. Inr \<lparr> egress_id = Some ''EG_1'', egressId = None \<rparr>),
       aclose = Inr (),
       create_sip_participant = (\<lambda>req. Inr ()),
       shutdown = Inr (),
       plugin_init = (\<lambda>p. Inr ()),
       AgentSession = (\<lambda>s. Inr ()),
       Agent_init = (\<lambda>instructions. Inr ()),
       session_start = (\<lambda>a. Inr ()),
       generate_reply = (\<lambda>instructions. Inr ()) \<rparr>"

definition with_api_key :: "world \<Rightarrow> world" where
  "with_api_key w =
     w\<lparr> environ := (\<lambda>name. if name = ''OPENWEATHER_API_KEY'' then Some ''k1'' else None) \<rparr>"

definition provider_world :: "int \<Rightarrow> py_error + py_value \<Rightarrow> world" where
  "provider_world code body =
     (with_api_key quiet_world)\<lparr> http_get := (\<lambda>url. Inr \<lparr> status = code, json = body \<rparr>) \<rparr>"

definition weather_body :: "py_value \<Rightarrow> py_value" where
  "weather_body temp =
     PyDict [(''weather'', PyList [PyDict [(''description'', PyStr ''clear sky'')]]),
             (''main'', PyDict [(''temp'', temp)])]"

definition failing_egress_world :: world where
  "failing_egress_world =
     quiet_world\<lparr> start_room_composite_egress :=
       (\<lambda>req. Inl (TwirpError ''invalid token'' ''TwirpError(code=unauthenticated, message=invalid token, status=401)'')) \<rparr>"

definition unanswered_world :: world where
  "unanswered_world =
     quiet_world\<lparr> create_sip_participant :=
       (\<lambda>req. Inl (TwirpError ''busy'' ''TwirpError(code=unavailable, message=busy, status=503)'')) \<rparr>"

definition unreachable_sip_world :: world where
  "unreachable_sip_world =
     quiet_world\<lparr> create_sip_participant :=
       (\<lambda>req. Inl (OtherException ''ClientConnectorError'' ''Cannot connect to host'')) \<rparr>"

definition inbound_job :: job_context where
  "inbound_job = \<lparr> room_name = ''room-1'', job_metadata = None \<rparr>"

definition outbound_job :: job_context where
  \<open>outbound_job = \<lparr> room_name = ''room-1'', job_metadata = Some ''{"phone_number": "+15550100"}'' \<rparr>\<close>

definition empty_number_job :: job_context where
  \<open>empty_number_job = \<lparr> room_name = ''room-1'', job_metadata = Some ''{"phone_number": ""}'' \<rparr>\<close>

definition list_metadata_job :: job_context where
  "list_metadata_job = \<lparr> room_name = ''room-1'', job_metadata = Some ''[]'' \<rparr>"

section \<open>Sequencing lemmas\<close>

declare str_nat.simps [simp del]

lemma bind_pair:
  "bind (r, trace) f =
     (case r of
        Inl e \<Rightarrow> (Inl e, trace)
      | Inr x \<Rightarrow> (case f x of (r', trace') \<Rightarrow> (r', trace @ trace')))"
  by (simp add: bind_def)

lemma try_except_pair:
  "try_except (r, trace) catches handler =
     (case r of
        Inl e \<Rightarrow>
          if catches e then (case handler e of (r', trace') \<Rightarrow> (r', trace @ trace'))
          else (Inl e, trace)
      | Inr x \<Rightarrow> (Inr x, trace))"
  by (simp add: try_except_def)

lemma bind_returns: "fst m = Inr x \<Longrightarrow> bind m f = (fst (f x), snd m @ snd (f x))"
  by (cases m) (simp add: bind_def split: prod.splits)

lemma bind_raises: "fst m = Inl e \<Longrightarrow> bind m f = (Inl e, snd m)"
  by (cases m) (simp add: bind_def)

lemmas run_simps = bind_pair try_except_pair ret_def lift_def perform_def print_def

lemma get_weather_no_key:
  assumes "environ w ''OPENWEATHER_API_KEY'' = None \<or> environ w ''OPENWEATHER_API_KEY'' = Some []"
  shows "get_weather w location = (Inr ''OpenWeather API key is not set.'', [])"
  using assms by (auto simp: get_weather_def ret_def)

lemma get_weather_request_fails:
  assumes "environ w ''OPENWEATHER_API_KEY'' = Some api_key" and "api_key \<noteq> []"
    and "http_get w (weather_url location api_key) = Inl e"
  shows "get_weather w location = (Inl e, [HttpGet (weather_url location api_key)])"
  using assms by (simp add: get_weather_def run_simps)

lemma get_weather_not_200:
  assumes "environ w ''OPENWEATHER_API_KEY'' = Some api_key" and "api_key \<noteq> []"
    and "http_get w (weather_url location api_key) = Inr response"
    and "status response \<noteq> 200"
  shows "get_weather w location =
           (Inr (''Sorry, I couldn't get the weather. Status code: '' @ str_int (status response)),
            [HttpGet (weather_url location api_key)])"
  using assms by (simp add: get_weather_def run_simps ret_def)

lemma weather_sentence_no_data:
  assumes "json response = Inr (PyDict body)"
    and "map_of body ''weather'' = None \<or> (\<exists>v. map_of body ''weather'' = Some v \<and> \<not> truthy v)"
  shows "weather_sentence fmt location response =
           (Inr ''Sorry, I couldn't find any weather data for that location.'', [])"
proof -
  from assms(2) show ?thesis
  proof
    assume none: "map_of body ''weather'' = None"
    then have "''weather'' \<notin> set (map fst body)"
      by (simp add: map_of_eq_None_iff)
    then show ?thesis
      using assms(1) by (simp add: weather_sentence_def run_simps)
  next
    assume "\<exists>v. map_of body ''weather'' = Some v \<and> \<not> truthy v"
    then obtain v where v: "map_of body ''weather'' = Some v" "\<not> truthy v" by blast
    then have "''weather'' \<in> set (map fst body)"
      by (metis map_of_eq_None_iff option.distinct(1) set_map)
    then show ?thesis
      using assms(1) v by (simp add: weather_sentence_def run_simps)
  qed
qed

lemma weather_sentence_ok:
  assumes "json response = Inr (PyDict body)"
    and "map_of body ''weather'' = Some (PyList (PyDict first # others))"
    and "map_of first ''description'' = Some description"
    and "map_of body ''main'' = Some (PyDict main)"
    and "map_of main ''temp'' = Some temp"
  shows "weather_sentence fmt location response =
           (Inr (''The weather in '' @ location @ '' is '' @ fmt description
                   @ '' with a temperature of '' @ fmt temp @ degree_sign @ ''C.''), [])"
proof -
  have "''weather'' \<in> set (map fst body)"
    using assms(2) by (metis map_of_eq_None_iff option.distinct(1) set_map)
  then show ?thesis
    using assms by (simp add: weather_sentence_def run_simps)
qed

lemma get_weather_200:
  assumes "environ w ''OPENWEATHER_API_KEY'' = Some api_key" and "api_key \<noteq> []"
    and "http_get w (weather_url location api_key) = Inr response"
    and "status response = 200"
  shows "get_weather w location =
           (fst (weather_sentence (py_str (container_str w)) location response),
            HttpGet (weather_url location api_key)
              # snd (weather_sentence (py_str (container_str w)) location response))"
  using assms by (simp add: get_weather_def run_simps split: prod.splits)


lemma get_weather_200_no_data:
  assumes "environ w ''OPENWEATHER_API_KEY'' = Some api_key" and "api_key \<noteq> []"
    and "http_get w (weather_url location api_key) = Inr response"
    and "status response = 200"
    and "json response = Inr (PyDict body)"
    and "map_of body ''weather'' = None \<or> (\<exists>v. map_of body ''weather'' = Some v \<and> \<not> truthy v)"
  shows "get_weather w location =
           (Inr ''Sorry, I couldn't find any weather data for that location.'',
            [HttpGet (weather_url location api_key)])"
  using assms by (simp add: get_weather_200 weather_sentence_no_data)

lemma get_weather_200_ok:
  assumes "environ w ''OPENWEATHER_API_KEY'' = Some api_key" and "api_key \<noteq> []"
    and "http_get w (weather_url location api_key) = Inr response"
    and "status response = 200"
    and "json response = Inr (PyDict body)"
    and "map_of body ''weather'' = Some (PyList (PyDict first # others))"
    and "map_of first ''description'' = Some description"
    and "map_of body ''main'' = Some (PyDict main)"
    and "map_of main ''temp'' = Some temp"
  shows "get_weather w location =
           (Inr (''The weather in '' @ location @ '' is '' @ py_str (container_str w) description
                   @ '' with a temperature of '' @ py_str (container_str w) temp
                   @ degree_sign @ ''C.''),
            [HttpGet (weather_url location api_key)])"
  using assms by (simp add: get_weather_200 weather_sentence_ok)

lemma get_weather_200_undecodable:
  assumes "environ w ''OPENWEATHER_API_KEY'' = Some api_key" and "api_key \<noteq> []"
    and "http_get w (weather_url location api_key) = Inr response"
    and "status response = 200"
    and "json response = Inl e"
  shows "get_weather w location = (Inl e, [HttpGet (weather_url location api_key)])"
  using assms by (simp add: get_weather_200 weather_sentence_def run_simps)

lemma provider_world_simps:
  "environ (provider_world code body) ''OPENWEATHER_API_KEY'' = Some ''k1''"
  "http_get (provider_world code body) url = Inr \<lparr> status = code, json = body \<rparr>"
  "container_str (provider_world code body) = (\<lambda>v. ''[]'')"
  by (simp_all add: provider_world_def with_api_key_def quiet_world_def)

section \<open>The weather tool\<close>

text \<open>
  Claim C8. When no weather API credential is configured (the variable is unset or empty),
  \<open>get_weather\<close> returns the fixed sentence "OpenWeather API key is not set." for every
  location, performs no outbound lookup (the event list is empty) and raises nothing.
\<close>

theorem get_weather_without_api_key:
  assumes "environ w ''OPENWEATHER_API_KEY'' = None \<or> environ w ''OPENWEATHER_API_KEY'' = Some []"
  shows "get_weather w location = (Inr ''OpenWeather API key is not set.'', [])"
  using assms by (rule get_weather_no_key)

theorem get_weather_without_api_key_witness:
  "environ quiet_world ''OPENWEATHER_API_KEY'' = None
   \<and> get_weather quiet_world ''Paris'' = (Inr ''OpenWeather API key is not set.'', [])"
proof -
  have h: "environ quiet_world ''OPENWEATHER_API_KEY'' = None"
    by (simp add: quiet_world_def)
  then have "environ quiet_world ''OPENWEATHER_API_KEY'' = None
             \<or> environ quiet_world ''OPENWEATHER_API_KEY'' = Some []" by simp
  from get_weather_without_api_key [OF this, of "''Paris''"] h show ?thesis by simp
qed

text \<open>
  Against claim C7 as stated: the source tests \<^verbatim>\<open>response.status != 200\<close>, so a 2xx
  response other than 200 whose body has no weather facts gets the status sentence, not
  the no-data sentence.
\<close>

theorem get_weather_status_201_counterexample:
  "fst (get_weather (provider_world 201 (Inr (PyDict []))) ''Paris'')
       = Inr ''Sorry, I couldn't get the weather. Status code: 201''
   \<and> fst (get_weather (provider_world 201 (Inr (PyDict []))) ''Paris'')
       \<noteq> Inr ''Sorry, I couldn't find any weather data for that location.''"
  by (simp add: get_weather_def provider_world_simps run_simps str_int_def str_nat.simps)

text \<open>
  Claim C7, amended. For every location, a response whose status is not 200 (every
  non-2xx status among them) yields the sentence reporting that status code; a response
  with status 200 whose body is a JSON object with no \<^verbatim>\<open>weather\<close> entry, or a false one
  (null, empty list, empty string, zero), yields the fixed no-data sentence. Neither
  raises.
\<close>

theorem get_weather_status_or_no_data:
  assumes "environ w ''OPENWEATHER_API_KEY'' = Some api_key" and "api_key \<noteq> []"
    and "http_get w (weather_url location api_key) = Inr response"
  shows "(status response \<noteq> 200 \<longrightarrow>
            fst (get_weather w location)
              = Inr (''Sorry, I couldn't get the weather. Status code: '' @ str_int (status response)))
       \<and> (status response = 200 \<and> json response = Inr (PyDict body)
            \<and> (map_of body ''weather'' = None
                 \<or> (\<exists>v. map_of body ''weather'' = Some v \<and> \<not> truthy v)) \<longrightarrow>
            fst (get_weather w location)
              = Inr ''Sorry, I couldn't find any weather data for that location.'')"
  using assms by (simp add: get_weather_not_200 get_weather_200_no_data)

theorem get_weather_status_or_no_data_witness:
  "fst (get_weather (provider_world 404 (Inr (PyDict []))) ''Paris'')
     = Inr ''Sorry, I couldn't get the weather. Status code: 404''
   \<and> fst (get_weather (provider_world 200 (Inr (PyDict [(''weather'', PyList [])]))) ''Paris'')
     = Inr ''Sorry, I couldn't find any weather data for that location.''"
proof -
  have k: "''k1'' \<noteq> ([] :: string)" by simp
  have a: "fst (get_weather (provider_world 404 (Inr (PyDict []))) ''Paris'')
             = Inr (''Sorry, I couldn't get the weather. Status code: '' @ str_int 404)"
    using get_weather_status_or_no_data
            [OF provider_world_simps(1) k provider_world_simps(2),
             of 404 "Inr (PyDict [])" "''Paris''" "[]"]
    by simp
  have b: "fst (get_weather (provider_world 200 (Inr (PyDict [(''weather'', PyList [])]))) ''Paris'')
             = Inr ''Sorry, I couldn't find any weather data for that location.''"
    using get_weather_status_or_no_data
            [OF provider_world_simps(1) k provider_world_simps(2),
             of 200 "Inr (PyDict [(''weather'', PyList [])])" "''Paris''" "[(''weather'', PyList [])]"]
    by simp
  have c: "str_int 404 = ''404''"
    by (simp add: str_int_def str_nat.simps)
  from a b c show ?thesis by simp
qed

text \<open>
  Against claim C6 as stated: the f-string formats \<^verbatim>\<open>{temp}\<close> with no format
  specification, so a temperature the provider sends as the integer 21 is reported as
  "21", not with one decimal.
\<close>

theorem get_weather_integer_temperature_counterexample:
  "fst (get_weather (provider_world 200 (Inr (weather_body (PyInt 21)))) ''Paris'')
     = Inr (''The weather in Paris is clear sky with a temperature of 21'' @ degree_sign @ ''C.'')
   \<and> fst (get_weather (provider_world 200 (Inr (weather_body (PyInt 21)))) ''Paris'')
     \<noteq> Inr (''The weather in Paris is clear sky with a temperature of 21.0'' @ degree_sign @ ''C.'')"
  by (simp add: get_weather_def weather_sentence_def weather_body_def provider_world_simps
        run_simps str_int_def str_nat.simps degree_sign_def)

text \<open>
  Claim C6, amended. On a response with status 200 whose body is a JSON object with a
  non-empty \<^verbatim>\<open>weather\<close> list, a \<^verbatim>\<open>description\<close> in its first item and a \<^verbatim>\<open>temp\<close> under
  \<^verbatim>\<open>main\<close>, \<open>get_weather\<close> returns "The weather in LOCATION is DESCRIPTION with a
  temperature of TEMP degrees C.", where description and temperature are formatted by
  \<^verbatim>\<open>str()\<close>: the digits the provider sent (21.3 gives "21.3", 21 gives "21"), with no
  fixed number of decimals.
\<close>

theorem get_weather_success_sentence:
  assumes "environ w ''OPENWEATHER_API_KEY'' = Some api_key" and "api_key \<noteq> []"
    and "http_get w (weather_url location api_key) = Inr response"
    and "status response = 200"
    and "json response = Inr (PyDict body)"
    and "map_of body ''weather'' = Some (PyList (PyDict first # others))"
    and "map_of first ''description'' = Some description"
    and "map_of body ''main'' = Some (PyDict main)"
    and "map_of main ''temp'' = Some temp"
  shows "get_weather w location =
           (Inr (''The weather in '' @ location @ '' is '' @ py_str (container_str w) description
                   @ '' with a temperature of '' @ py_str (container_str w) temp
                   @ degree_sign @ ''C.''),
            [HttpGet (weather_url location api_key)])"
  using assms by (rule get_weather_200_ok)

theorem get_weather_success_sentence_witness:
  "get_weather (provider_world 200 (Inr (weather_body (PyFloat ''21.3'')))) ''Paris'' =
     (Inr (''The weather in Paris is clear sky with a temperature of 21.3'' @ degree_sign @ ''C.''),
      [HttpGet (weather_url ''Paris'' ''k1'')])"
proof -
  have k: "''k1'' \<noteq> ([] :: string)" by simp
  have "get_weather (provider_world 200 (Inr (weather_body (PyFloat ''21.3'')))) ''Paris'' =
          (Inr (''The weather in '' @ ''Paris'' @ '' is ''
                  @ py_str (container_str (provider_world 200 (Inr (weather_body (PyFloat ''21.3''))))) (PyStr ''clear sky'')
                  @ '' with a temperature of ''
                  @ py_str (container_str (provider_world 200 (Inr (weather_body (PyFloat ''21.3''))))) (PyFloat ''21.3'')
                  @ degree_sign @ ''C.''),
           [HttpGet (weather_url ''Paris'' ''k1'')])"
    by (rule get_weather_success_sentence
               [OF provider_world_simps(1) k provider_world_simps(2),
                where body = "[(''weather'', PyList [PyDict [(''description'', PyStr ''clear sky'')]]),
                               (''main'', PyDict [(''temp'', PyFloat ''21.3'')])]"
                  and first = "[(''description'', PyStr ''clear sky'')]" and others = "[]"
                  and main = "[(''temp'', PyFloat ''21.3'')]"])
       (simp_all add: weather_body_def)
  then show ?thesis by simp
qed

text \<open>
  Against claim C4 as stated: \<open>get_weather\<close> has no exception handler, so a request that
  cannot reach the provider raises past its boundary.
\<close>

theorem get_weather_unreachable_provider_counterexample:
  "fst (get_weather (with_api_key quiet_world) ''Paris'')
     = Inl (OtherException ''ClientConnectorError'' ''Cannot connect to host'')"
  by (simp add: get_weather_def with_api_key_def quiet_world_def run_simps)

text \<open>
  Claim C4, amended. \<open>get_weather\<close> returns a string when no API key is configured, when
  the provider answers with a status other than 200, and when a response with status 200
  carries a JSON object whose \<^verbatim>\<open>weather\<close> entry is absent or false, or is a list whose
  first item has a \<^verbatim>\<open>description\<close> while \<^verbatim>\<open>main\<close> has a \<^verbatim>\<open>temp\<close>. An exception of the
  request itself, or of decoding the body of a response with status 200, is raised to
  the caller unchanged.
\<close>

theorem get_weather_returns_or_propagates:
  "(environ w ''OPENWEATHER_API_KEY'' = None \<or> environ w ''OPENWEATHER_API_KEY'' = Some [] \<longrightarrow>
      (\<exists>sentence. fst (get_weather w location) = Inr sentence))
   \<and> (environ w ''OPENWEATHER_API_KEY'' = Some api_key \<and> api_key \<noteq> []
        \<and> http_get w (weather_url location api_key) = Inr response
        \<and> (status response \<noteq> 200
            \<or> json response = Inr (PyDict body)
               \<and> (map_of body ''weather'' = None
                   \<or> (\<exists>v. map_of body ''weather'' = Some v \<and> \<not> truthy v)
                   \<or> (\<exists>first others description main temp.
                        map_of body ''weather'' = Some (PyList (PyDict first # others))
                        \<and> map_of first ''description'' = Some description
                        \<and> map_of body ''main'' = Some (PyDict main)
                        \<and> map_of main ''temp'' = Some temp))) \<longrightarrow>
      (\<exists>sentence. fst (get_weather w location) = Inr sentence))
   \<and> (environ w ''OPENWEATHER_API_KEY'' = Some api_key \<and> api_key \<noteq> []
        \<and> (http_get w (weather_url location api_key) = Inl e
            \<or> http_get w (weather_url location api_key) = Inr response
               \<and> status response = 200 \<and> json response = Inl e) \<longrightarrow>
      fst (get_weather w location) = Inl e)"
proof (intro conjI impI)
  assume "environ w ''OPENWEATHER_API_KEY'' = None \<or> environ w ''OPENWEATHER_API_KEY'' = Some []"
  then show "\<exists>sentence. fst (get_weather w location) = Inr sentence"
    by (simp add: get_weather_no_key)
next
  assume h: "environ w ''OPENWEATHER_API_KEY'' = Some api_key \<and> api_key \<noteq> []
        \<and> http_get w (weather_url location api_key) = Inr response
        \<and> (status response \<noteq> 200
            \<or> json response = Inr (PyDict body)
               \<and> (map_of body ''weather'' = None
                   \<or> (\<exists>v. map_of body ''weather'' = Some v \<and> \<not> truthy v)
                   \<or> (\<exists>first others description main temp.
                        map_of body ''weather'' = Some (PyList (PyDict first # others))
                        \<and> map_of first ''description'' = Some description
                        \<and> map_of body ''main'' = Some (PyDict main)
                        \<and> map_of main ''temp'' = Some temp)))"
  show "\<exists>sentence. fst (get_weather w location) = Inr sentence"
  proof (cases "status response = 200")
    case False
    with h show ?thesis by (simp add: get_weather_not_200)
  next
    case True
    with h have b: "json response = Inr (PyDict body)" by simp
    from h True consider
        (nodata) "map_of body ''weather'' = None \<or> (\<exists>v. map_of body ''weather'' = Some v \<and> \<not> truthy v)"
      | (ok) first others description main temp where
          "map_of body ''weather'' = Some (PyList (PyDict first # others))"
          "map_of first ''description'' = Some description"
          "map_of body ''main'' = Some (PyDict main)"
          "map_of main ''temp'' = Some temp"
      by blast
    then show ?thesis
    proof cases
      case nodata
      with h True b show ?thesis by (simp add: get_weather_200_no_data)
    next
      case ok
      with h True b show ?thesis by (simp add: get_weather_200_ok)
    qed
  qed
next
  assume h: "environ w ''OPENWEATHER_API_KEY'' = Some api_key \<and> api_key \<noteq> []
        \<and> (http_get w (weather_url location api_key) = Inl e
            \<or> http_get w (weather_url location api_key) = Inr response
               \<and> status response = 200 \<and> json response = Inl e)"
  then show "fst (get_weather w location) = Inl e"
    by (auto simp: get_weather_request_fails get_weather_200_undecodable)
qed


theorem get_weather_returns_or_propagates_witness:
  "(\<exists>sentence. fst (get_weather (provider_world 404 (Inr (PyDict []))) ''Paris'') = Inr sentence)
   \<and> fst (get_weather (provider_world 200 (Inl (JSONDecodeError ''Expecting value''))) ''Paris'')
       = Inl (JSONDecodeError ''Expecting value'')"
proof -
  have k: "''k1'' \<noteq> ([] :: string)" by simp
  have a: "\<exists>sentence. fst (get_weather (provider_world 404 (Inr (PyDict []))) ''Paris'') = Inr sentence"
    using get_weather_returns_or_propagates
            [of "provider_world 404 (Inr (PyDict []))" "''Paris''" "''k1''"
                "\<lparr> status = 404, json = Inr (PyDict []) \<rparr>"]
          k
    by (simp add: provider_world_simps)
  have b: "fst (get_weather (provider_world 200 (Inl (JSONDecodeError ''Expecting value''))) ''Paris'')
             = Inl (JSONDecodeError ''Expecting value'')"
    using get_weather_returns_or_propagates
            [of "provider_world 200 (Inl (JSONDecodeError ''Expecting value''))" "''Paris''" "''k1''"
                "\<lparr> status = 200, json = Inl (JSONDecodeError ''Expecting value'') \<rparr>"
                _ "JSONDecodeError ''Expecting value''"]
          k
    by (simp add: provider_world_simps)
  from a b show ?thesis by simp
qed

section \<open>The orchestrator, stage by stage\<close>

lemma filter_bind_empty:
  assumes "filter P (snd m) = []" and "\<And>x. filter P (snd (f x)) = []"
  shows "filter P (snd (bind m f)) = []"
proof (cases "fst m")
  case (Inl e)
  then show ?thesis using assms(1) by (simp add: bind_raises)
next
  case (Inr x)
  then show ?thesis using assms by (simp add: bind_returns)
qed

lemma fst_try_except:
  "fst (try_except m catches handler) =
     (case fst m of
        Inl e \<Rightarrow> if catches e then fst (handler e) else Inl e
      | Inr x \<Rightarrow> Inr x)"
  by (cases m) (simp add: try_except_def split: sum.splits prod.splits)

lemma snd_try_except:
  "snd (try_except m catches handler) =
     snd m @ (case fst m of
                Inl e \<Rightarrow> if catches e then snd (handler e) else []
              | Inr x \<Rightarrow> [])"
  by (cases m) (simp add: try_except_def split: sum.splits prod.splits)

lemma filter_try_empty:
  assumes "filter P (snd m) = []" and "\<And>e. filter P (snd (handler e)) = []"
  shows "filter P (snd (try_except m catches handler)) = []"
  using assms by (simp add: snd_try_except split: sum.splits)

lemma new_run: "fst (new w p) = (case plugin_init w p of Inl e \<Rightarrow> Inl e | Inr u \<Rightarrow> Inr p)"
  "snd (new w p) = [New p]"
  by (simp_all add: new_def run_simps split: sum.splits)

lemmas leaf_simps = new_run perform_def print_def ret_def lift_def

subsection \<open>The recording request\<close>

lemma start_egress_returns: "fst (start_egress w ctx) = Inr ()"
  by (simp add: start_egress_def fst_try_except print_def split: sum.splits)

lemma start_egress_filter:
  assumes "\<not> P NewLiveKitAPI" and "\<not> P AClose" and "\<And>s. \<not> P (Print s)"
    and "\<And>r. \<not> P (StartRoomCompositeEgress r)"
  shows "filter P (snd (start_egress w ctx)) = []"
  unfolding start_egress_def
  by (intro filter_try_empty filter_bind_empty) (simp_all add: leaf_simps assms)

lemma start_egress_logs_failure:
  assumes "egress_failure w ctx = Some e"
  shows "\<exists>before. snd (start_egress w ctx) = before @ [Print (''Error starting egress: '' @ exc_str e)]"
  using assms
  by (auto simp: egress_failure_def start_egress_def run_simps split: sum.splits)

lemma start_egress_room: "start_egress w (ctx\<lparr> job_metadata := md \<rparr>) = start_egress w ctx"
  by (simp add: start_egress_def egress_request_of_def)

subsection \<open>The phone number\<close>

lemma resolve_no_metadata:
  "job_metadata ctx = None \<or> job_metadata ctx = Some [] \<Longrightarrow>
     resolve_phone_number w ctx = (Inr PyNone, [])"
  by (auto simp: resolve_phone_number_def ret_def)

lemma resolve_invalid_json:
  "job_metadata ctx = Some text \<Longrightarrow> text \<noteq> [] \<Longrightarrow> json_loads w text = Inl (JSONDecodeError m) \<Longrightarrow>
     resolve_phone_number w ctx = (Inr PyNone, [Print ''Error: Invalid JSON in job metadata''])"
  by (simp add: resolve_phone_number_def run_simps)

lemma resolve_dict:
  "job_metadata ctx = Some text \<Longrightarrow> text \<noteq> [] \<Longrightarrow> json_loads w text = Inr (PyDict entries) \<Longrightarrow>
     resolve_phone_number w ctx =
       (Inr (case map_of entries ''phone_number'' of None \<Rightarrow> PyNone | Some v \<Rightarrow> v), [])"
  by (simp add: resolve_phone_number_def run_simps)

lemma resolve_filter:
  assumes "\<And>s. \<not> P (Print s)"
  shows "filter P (snd (resolve_phone_number w ctx)) = []"
  unfolding resolve_phone_number_def
  by (auto split: option.splits intro!: filter_try_empty filter_bind_empty simp: leaf_simps assms)

subsection \<open>The dial\<close>

lemma place_call_str:
  "place_call w ctx (PyStr number) =
     (case create_sip_participant w
             \<lparr> sip_room_name = room_name ctx, sip_trunk_id = ''ST_p7QcFHJKXXUM'',
               sip_call_to = number, participant_identity = number,
               wait_until_answered = True \<rparr> of
        Inr u \<Rightarrow>
          (Inr True,
           [Print (''Attempting to place outbound call to: '' @ number),
            CreateSIPParticipant
              \<lparr> sip_room_name = room_name ctx, sip_trunk_id = ''ST_p7QcFHJKXXUM'',
                sip_call_to = number, participant_identity = number,
                wait_until_answered = True \<rparr>,
            Print (''Call to '' @ number @ '' was answered.'')])
      | Inl e \<Rightarrow>
          if is_TwirpError e
          then (case shutdown w of Inl e' \<Rightarrow> Inl e' | Inr u \<Rightarrow> Inr False,
                [Print (''Attempting to place outbound call to: '' @ number),
                 CreateSIPParticipant
                   \<lparr> sip_room_name = room_name ctx, sip_trunk_id = ''ST_p7QcFHJKXXUM'',
                     sip_call_to = number, participant_identity = number,
                     wait_until_answered = True \<rparr>,
                 Print (''Error creating SIP participant: '' @ twirp_message e),
                 Shutdown])
          else (Inl e,
                [Print (''Attempting to place outbound call to: '' @ number),
                 CreateSIPParticipant
                   \<lparr> sip_room_name = room_name ctx, sip_trunk_id = ''ST_p7QcFHJKXXUM'',
                     sip_call_to = number, participant_identity = number,
                     wait_until_answered = True \<rparr>]))"
  by (simp add: place_call_def CreateSIPParticipantRequest_def run_simps split: sum.splits)

lemma place_call_not_str:
  assumes "\<And>number. phone_number \<noteq> PyStr number"
  shows "place_call w ctx phone_number
           = (Inl (TypeError ''bad argument type for built-in operation''),
              [Print (''Attempting to place outbound call to: ''
                       @ py_str (container_str w) phone_number)])"
  using assms
  by (cases phone_number)
     (auto simp: place_call_def CreateSIPParticipantRequest_def run_simps)

lemma place_call_filter:
  assumes "\<And>s. \<not> P (Print s)" and "\<And>r. \<not> P (CreateSIPParticipant r)" and "\<not> P Shutdown"
  shows "filter P (snd (place_call w ctx phone_number)) = []"
  unfolding place_call_def
  by (intro filter_try_empty filter_bind_empty) (simp_all add: leaf_simps assms)

subsection \<open>The Session\<close>

lemma start_session_filter:
  assumes "\<And>p. \<not> P (New p)" and "\<And>s. \<not> P (NewAgentSession s)" and "\<And>s. \<not> P (NewAssistant s)"
    and "\<And>a. \<not> P (SessionStart a)" and "\<And>s. \<not> P (GenerateReply s)"
  shows "filter P (snd (start_session w ctx phone_number)) = []"
  unfolding start_session_def
  by (intro filter_bind_empty) (simp_all add: leaf_simps assms)

lemma start_session_ok:
  assumes "\<And>p. plugin_init w p = Inr ()" and "\<And>s. AgentSession w s = Inr ()"
    and "Agent_init w Assistant_instructions = Inr ()"
    and "session_start w \<lparr> start_room = room_name ctx, start_agent = Assistant_instructions,
                            start_noise_cancellation = BVCTelephony \<rparr> = Inr ()"
  shows "start_session w ctx phone_number =
           (if truthy phone_number then (Inr (), session_setup ctx)
            else (generate_reply w ''Greet the user and offer your assistance.'',
                  session_setup ctx @ [GenerateReply ''Greet the user and offer your assistance.'']))"
  using assms
  by (simp add: start_session_def new_def session_setup_def run_simps)

section \<open>The orchestrator as a whole\<close>

subsection \<open>The whole run\<close>

lemma entrypoint_not_connected: "connect w = Inl e \<Longrightarrow> entrypoint w ctx = (Inl e, [Connect])"
  by (simp add: entrypoint_def run_simps)

lemma entrypoint_connected:
  "connect w = Inr () \<Longrightarrow>
     entrypoint w ctx =
       (fst (handle_call w ctx), Connect # snd (start_egress w ctx) @ snd (handle_call w ctx))"
  by (simp add: entrypoint_def run_simps bind_returns [OF start_egress_returns])

lemma handle_call_raises:
  "fst (resolve_phone_number w ctx) = Inl e \<Longrightarrow>
     handle_call w ctx = (Inl e, snd (resolve_phone_number w ctx))"
  by (simp add: handle_call_def bind_raises)

lemma handle_call_inbound:
  "fst (resolve_phone_number w ctx) = Inr phone_number \<Longrightarrow> \<not> truthy phone_number \<Longrightarrow>
     handle_call w ctx =
       (fst (start_session w ctx phone_number),
        snd (resolve_phone_number w ctx) @ snd (start_session w ctx phone_number))"
  by (simp add: handle_call_def bind_returns run_simps split: prod.splits)

lemma handle_call_outbound:
  "fst (resolve_phone_number w ctx) = Inr phone_number \<Longrightarrow> truthy phone_number \<Longrightarrow>
     handle_call w ctx =
       (case fst (place_call w ctx phone_number) of
          Inl e \<Rightarrow>
            (Inl e, snd (resolve_phone_number w ctx) @ snd (place_call w ctx phone_number))
        | Inr proceed \<Rightarrow>
            if proceed
            then (fst (start_session w ctx phone_number),
                  snd (resolve_phone_number w ctx) @ snd (place_call w ctx phone_number)
                    @ snd (start_session w ctx phone_number))
            else (Inr (), snd (resolve_phone_number w ctx) @ snd (place_call w ctx phone_number)))"
  by (cases "place_call w ctx phone_number")
     (simp add: handle_call_def bind_returns run_simps split: prod.splits sum.splits)

lemma start_session_greeting:
  "filter is_greeting (snd (start_session w ctx phone_number)) =
     (if \<not> truthy phone_number \<and> session_started w (snd (start_session w ctx phone_number))
      then [GenerateReply ''Greet the user and offer your assistance.''] else [])"
proof -
  have quiet_bind:
    "filter is_greeting (snd (bind m f)) =
       (if c \<and> session_started w (snd (bind m f)) then [g] else [])"
    if "filter is_greeting (snd m) = []" and "filter (start_returned w) (snd m) = []"
      and "\<And>x. filter is_greeting (snd (f x)) = (if c \<and> session_started w (snd (f x)) then [g] else [])"
    for m :: "'a run" and f :: "'a \<Rightarrow> unit run" and c g
  proof (cases "fst m")
    case (Inl e)
    then show ?thesis using that(1,2) by (simp add: bind_raises session_started_def)
  next
    case (Inr x)
    then show ?thesis using that by (simp add: bind_returns session_started_def)
  qed
  show ?thesis
    unfolding start_session_def
    apply ((rule quiet_bind, (simp add: leaf_simps; fail), (simp add: leaf_simps; fail))+)
    apply (simp add: run_simps session_started_def split: sum.splits)
    done
qed

lemma start_session_same:
  "truthy a = truthy b \<Longrightarrow> room_name ctx' = room_name ctx \<Longrightarrow>
     start_session w ctx' a = start_session w ctx b"
  by (simp add: start_session_def)

lemma session_started_append:
  "session_started w (xs @ ys) = (session_started w xs \<or> session_started w ys)"
  by (simp add: session_started_def)

lemma not_started:
  "filter (start_returned w) xs = [] \<Longrightarrow> \<not> session_started w xs"
  by (simp add: session_started_def)

lemma handle_call_greeting:
  "filter is_greeting (snd (handle_call w ctx)) =
     (if call_intent w ctx = Some Inbound \<and> session_started w (snd (handle_call w ctx))
      then [GenerateReply ''Greet the user and offer your assistance.''] else [])"
proof (cases "fst (resolve_phone_number w ctx)")
  case (Inl e)
  then show ?thesis
    by (simp add: handle_call_raises resolve_filter call_intent_def)
next
  case (Inr phone_number)
  have r: "filter is_greeting (snd (resolve_phone_number w ctx)) = []"
    "\<not> session_started w (snd (resolve_phone_number w ctx))"
    by (simp_all add: resolve_filter not_started)
  show ?thesis
  proof (cases "truthy phone_number")
    case False
    with Inr r show ?thesis
      by (simp add: handle_call_inbound call_intent_def session_started_append
            start_session_greeting)
  next
    case True
    have p: "filter is_greeting (snd (place_call w ctx phone_number)) = []"
      by (simp add: place_call_filter)
    have s: "filter is_greeting (snd (start_session w ctx phone_number)) = []"
      using True by (simp add: start_session_greeting)
    from Inr True r p s show ?thesis
      by (simp add: handle_call_outbound call_intent_def split: sum.splits)
  qed
qed

lemma handle_call_dials:
  "filter is_dial (snd (handle_call w ctx)) =
     (case fst (resolve_phone_number w ctx) of
        Inr (PyStr number) \<Rightarrow>
          if number = [] then []
          else [CreateSIPParticipant
                  \<lparr> sip_room_name = room_name ctx, sip_trunk_id = ''ST_p7QcFHJKXXUM'',
                    sip_call_to = number, participant_identity = number,
                    wait_until_answered = True \<rparr>]
      | other \<Rightarrow> [])"
proof (cases "fst (resolve_phone_number w ctx)")
  case (Inl e)
  then show ?thesis by (simp add: handle_call_raises resolve_filter)
next
  case (Inr phone_number)
  have r: "filter is_dial (snd (resolve_phone_number w ctx)) = []"
    by (simp add: resolve_filter)
  have s: "filter is_dial (snd (start_session w ctx phone_number)) = []"
    by (simp add: start_session_filter)
  show ?thesis
  proof (cases "truthy phone_number")
    case False
    with Inr r s show ?thesis
      by (cases phone_number) (simp_all add: handle_call_inbound)
  next
    case True
    show ?thesis
    proof (cases "\<exists>number. phone_number = PyStr number")
      case True
      then obtain number where n: "phone_number = PyStr number" by blast
      with \<open>truthy phone_number\<close> Inr r s show ?thesis
        by (simp add: handle_call_outbound place_call_str split: sum.splits)
    next
      case False
      then have "\<And>number. phone_number \<noteq> PyStr number" by blast
      note place_call_not_str [OF this]
      with False \<open>truthy phone_number\<close> Inr r show ?thesis
        by (cases phone_number) (simp_all add: handle_call_outbound)
    qed
  qed
qed

lemma entrypoint_dials:
  "filter is_dial (snd (entrypoint w ctx)) =
     (case connect w of
        Inl e \<Rightarrow> []
      | Inr u \<Rightarrow> filter is_dial (snd (handle_call w ctx)))"
proof (cases "connect w")
  case (Inl e)
  then show ?thesis by (simp add: entrypoint_not_connected)
next
  case (Inr u)
  then have c: "connect w = Inr ()" by simp
  have "filter is_dial (snd (start_egress w ctx)) = []"
    by (simp add: start_egress_filter)
  then show ?thesis
    by (simp add: entrypoint_connected [OF c] c)
qed

lemma handle_call_failed_dial:
  assumes "fst (resolve_phone_number w ctx) = Inr (PyStr number)" and "number \<noteq> []"
    and "create_sip_participant w
           \<lparr> sip_room_name = room_name ctx, sip_trunk_id = ''ST_p7QcFHJKXXUM'',
             sip_call_to = number, participant_identity = number,
             wait_until_answered = True \<rparr> = Inl e"
  shows "handle_call w ctx =
           (if is_TwirpError e then shutdown w else Inl e,
            snd (resolve_phone_number w ctx)
              @ [Print (''Attempting to place outbound call to: '' @ number),
                 CreateSIPParticipant
                   \<lparr> sip_room_name = room_name ctx, sip_trunk_id = ''ST_p7QcFHJKXXUM'',
                     sip_call_to = number, participant_identity = number,
                     wait_until_answered = True \<rparr>]
              @ (if is_TwirpError e
                 then [Print (''Error creating SIP participant: '' @ twirp_message e), Shutdown]
                 else []))"
  using assms
  by (cases "shutdown w") (simp_all add: handle_call_outbound place_call_str ret_def)

lemma handle_call_without_egress:
  "handle_call (w\<lparr> LiveKitAPI := a, start_room_composite_egress := b, aclose := c \<rparr>) ctx
     = handle_call w ctx"
proof -
  let ?w = "w\<lparr> LiveKitAPI := a, start_room_composite_egress := b, aclose := c \<rparr>"
  have r: "resolve_phone_number ?w ctx = resolve_phone_number w ctx"
    by (simp add: resolve_phone_number_def split: option.splits)
  have p: "place_call ?w ctx phone_number = place_call w ctx phone_number" for phone_number
    by (simp add: place_call_def)
  have s: "start_session ?w ctx phone_number = start_session w ctx phone_number" for phone_number
    by (simp add: start_session_def new_def)
  show ?thesis
    by (simp add: handle_call_def r p s cong: if_cong)
qed

lemma entrypoint_after_egress:
  "drop (Suc (length (snd (start_egress w ctx)))) (snd (entrypoint w ctx)) =
     (case connect w of Inl e \<Rightarrow> [] | Inr u \<Rightarrow> snd (handle_call w ctx))"
proof (cases "connect w")
  case (Inl e)
  then show ?thesis by (simp add: entrypoint_not_connected)
next
  case (Inr u)
  then have "connect w = Inr ()" by simp
  then show ?thesis by (simp add: entrypoint_connected)
qed

lemma entrypoint_result:
  "fst (entrypoint w ctx) = (case connect w of Inl e \<Rightarrow> Inl e | Inr u \<Rightarrow> fst (handle_call w ctx))"
proof (cases "connect w")
  case (Inl e)
  then show ?thesis by (simp add: entrypoint_not_connected)
next
  case (Inr u)
  then have "connect w = Inr ()" by simp
  then show ?thesis by (simp add: entrypoint_connected)
qed

lemma entrypoint_inbound_ok:
  assumes "connect w = Inr ()"
    and "fst (resolve_phone_number w ctx) = Inr phone_number" and "\<not> truthy phone_number"
    and "\<forall>p. plugin_init w p = Inr ()" and "\<forall>s. AgentSession w s = Inr ()"
    and "Agent_init w Assistant_instructions = Inr ()" and "\<forall>a. session_start w a = Inr ()"
  shows "entrypoint w ctx =
           (generate_reply w ''Greet the user and offer your assistance.'',
            Connect # snd (start_egress w ctx) @ snd (resolve_phone_number w ctx)
              @ session_setup ctx @ [GenerateReply ''Greet the user and offer your assistance.''])"
proof -
  from assms(3-7) have "start_session w ctx phone_number =
      (generate_reply w ''Greet the user and offer your assistance.'',
       session_setup ctx @ [GenerateReply ''Greet the user and offer your assistance.''])"
    by (simp add: start_session_ok)
  then show ?thesis
    using assms(1) by (simp add: entrypoint_connected handle_call_inbound [OF assms(2,3)])
qed

lemma no_phone_number_is_inbound:
  assumes "job_metadata ctx = None \<or> job_metadata ctx = Some []
           \<or> (\<exists>text. job_metadata ctx = Some text \<and> text \<noteq> []
                \<and> ((\<exists>m. json_loads w text = Inl (JSONDecodeError m))
                    \<or> (\<exists>entries. json_loads w text = Inr (PyDict entries)
                          \<and> map_of entries ''phone_number'' = None)))"
  shows "call_intent w ctx = Some Inbound \<and> filter is_dial (snd (entrypoint w ctx)) = []"
proof -
  from assms have "fst (resolve_phone_number w ctx) = Inr PyNone"
    by (auto simp: resolve_no_metadata resolve_invalid_json resolve_dict)
  then show ?thesis
    by (simp add: call_intent_def entrypoint_dials handle_call_dials split: sum.splits)
qed

lemma start_egress_events:
  "snd (start_egress w ctx) =
     (case LiveKitAPI w of
        Inl e \<Rightarrow> [NewLiveKitAPI, Print (''Error starting egress: '' @ exc_str e)]
      | Inr lkapi \<Rightarrow>
          [NewLiveKitAPI, Print ''Starting room egress...'',
           StartRoomCompositeEgress (egress_request_of w ctx)]
          @ (case start_room_composite_egress w (egress_request_of w ctx) of
               Inl e \<Rightarrow> [Print (''Error starting egress: '' @ exc_str e)]
             | Inr info \<Rightarrow>
                 AClose
                 # (case aclose w of
                      Inl e \<Rightarrow> [Print (''Error starting egress: '' @ exc_str e)]
                    | Inr u \<Rightarrow>
                        [Print (''Egress started successfully. Egress ID: ''
                                  @ str_opt (py_or (egress_id info) (egressId info)))])))"
  by (simp add: start_egress_def run_simps split: sum.splits)

lemma entrypoint_events:
  "snd (entrypoint w ctx) =
     (case connect w of
        Inl e \<Rightarrow> [Connect]
      | Inr u \<Rightarrow> Connect # snd (start_egress w ctx) @ snd (handle_call w ctx))"
proof (cases "connect w")
  case (Inl e)
  then show ?thesis by (simp add: entrypoint_not_connected)
next
  case (Inr u)
  then have "connect w = Inr ()" by simp
  then show ?thesis by (simp add: entrypoint_connected)
qed

lemma failed_dial_run:
  assumes "connect w = Inr ()"
    and "fst (resolve_phone_number w ctx) = Inr (PyStr number)" and "number \<noteq> []"
    and "snd (resolve_phone_number w ctx) = []"
    and "create_sip_participant w
           \<lparr> sip_room_name = room_name ctx, sip_trunk_id = ''ST_p7QcFHJKXXUM'',
             sip_call_to = number, participant_identity = number,
             wait_until_answered = True \<rparr> = Inl e"
  shows "entrypoint w ctx =
           (if is_TwirpError e then shutdown w else Inl e,
            Connect # snd (start_egress w ctx)
              @ [Print (''Attempting to place outbound call to: '' @ number),
                 CreateSIPParticipant
                   \<lparr> sip_room_name = room_name ctx, sip_trunk_id = ''ST_p7QcFHJKXXUM'',
                     sip_call_to = number, participant_identity = number,
                     wait_until_answered = True \<rparr>]
              @ (if is_TwirpError e
                 then [Print (''Error creating SIP participant: '' @ twirp_message e), Shutdown]
                 else []))"
  using handle_call_failed_dial [OF assms(2,3,5)] assms(1,4)
  by (simp add: entrypoint_connected)

subsection \<open>The concrete worlds\<close>

lemma quiet_world_simps:
  "connect quiet_world = Inr ()"
  "shutdown quiet_world = Inr ()"
  "json_loads quiet_world = example_loads"
  "LiveKitAPI quiet_world = Inr ()"
  "aclose quiet_world = Inr ()"
  "plugin_init quiet_world p = Inr ()"
  "AgentSession quiet_world s = Inr ()"
  "Agent_init quiet_world i = Inr ()"
  "session_start quiet_world a = Inr ()"
  "generate_reply quiet_world g = Inr ()"
  "create_sip_participant quiet_world r = Inr ()"
  "environ quiet_world n = None"
  "start_room_composite_egress quiet_world q = Inr \<lparr> egress_id = Some ''EG_1'', egressId = None \<rparr>"
  by (simp_all add: quiet_world_def)

lemma example_loads_simps:
  \<open>example_loads ''{"phone_number": "+15550100"}'' = Inr (PyDict [(''phone_number'', PyStr ''+15550100'')])\<close>
  \<open>example_loads ''{"phone_number": ""}'' = Inr (PyDict [(''phone_number'', PyStr [])])\<close>
  \<open>example_loads ''[]'' = Inr (PyList [])\<close>
  by (simp_all add: example_loads_def)

lemma failing_egress_world_simps:
  "connect failing_egress_world = Inr ()"
  "LiveKitAPI failing_egress_world = Inr ()"
  "plugin_init failing_egress_world p = Inr ()"
  "AgentSession failing_egress_world s = Inr ()"
  "Agent_init failing_egress_world i = Inr ()"
  "session_start failing_egress_world t = Inr ()"
  "generate_reply failing_egress_world g = Inr ()"
  "start_room_composite_egress failing_egress_world q =
     Inl (TwirpError ''invalid token'' ''TwirpError(code=unauthenticated, message=invalid token, status=401)'')"
  by (simp_all add: failing_egress_world_def quiet_world_def)

section \<open>The job lifecycle\<close>

text \<open>
  Against claim C1 as stated: line 123 catches \<^verbatim>\<open>api.TwirpError\<close> only. A dial that
  fails with another exception (here the API server cannot be reached) is not followed by
  the teardown: \<^verbatim>\<open>ctx.shutdown()\<close> is never called and \<^verbatim>\<open>entrypoint\<close> does not return, it
  raises.
\<close>

theorem dial_connection_error_counterexample:
  "fst (entrypoint unreachable_sip_world outbound_job)
     = Inl (OtherException ''ClientConnectorError'' ''Cannot connect to host'')
   \<and> filter is_dial (snd (entrypoint unreachable_sip_world outbound_job))
     = [CreateSIPParticipant
          \<lparr> sip_room_name = ''room-1'', sip_trunk_id = ''ST_p7QcFHJKXXUM'',
            sip_call_to = ''+15550100'', participant_identity = ''+15550100'',
            wait_until_answered = True \<rparr>]
   \<and> filter is_shutdown (snd (entrypoint unreachable_sip_world outbound_job)) = []"
proof -
  have c: "connect unreachable_sip_world = Inr ()"
    by (simp add: unreachable_sip_world_def quiet_world_simps)
  have r: "resolve_phone_number unreachable_sip_world outbound_job = (Inr (PyStr ''+15550100''), [])"
    by (simp add: resolve_dict [where entries = "[(''phone_number'', PyStr ''+15550100'')]"]
          outbound_job_def unreachable_sip_world_def quiet_world_simps example_loads_simps)
  have d: "create_sip_participant unreachable_sip_world q
             = Inl (OtherException ''ClientConnectorError'' ''Cannot connect to host'')" for q
    by (simp add: unreachable_sip_world_def)
  have e: "filter is_shutdown (snd (start_egress unreachable_sip_world outbound_job)) = []"
    "filter is_dial (snd (start_egress unreachable_sip_world outbound_job)) = []"
    by (simp_all add: start_egress_filter)
  have n: "''+15550100'' \<noteq> ([] :: string)" by simp
  have name: "room_name outbound_job = ''room-1''"
    by (simp add: outbound_job_def)
  from handle_call_failed_dial [of unreachable_sip_world outbound_job "''+15550100''", OF _ n d] r
  show ?thesis
    by (simp add: entrypoint_connected [OF c] e name)
qed

text \<open>
  Claim C1, amended. For every job whose metadata resolves to a valid phone number (a JSON
  object whose \<^verbatim>\<open>phone_number\<close> is a non-empty string), once the room is connected
  exactly one dial is attempted, with the request built from that number. If the dial
  fails, no Session is constructed or started, no greeting is requested, and
  \<^verbatim>\<open>entrypoint\<close> ends there: the dial is the last call but for the handler's. When the
  failure is the one the telephony API reports, \<^verbatim>\<open>api.TwirpError\<close> (the exception line
  123 names, carrying the reason), the job is aborted by the orchestrator: the reason is
  logged, \<^verbatim>\<open>ctx.shutdown()\<close> is called once, as the last call, and \<^verbatim>\<open>entrypoint\<close> ends
  with the outcome of that call, so it returns when the shutdown returns. An exception of
  any other class leaves \<^verbatim>\<open>entrypoint\<close> right after the dial: nothing is logged and
  \<^verbatim>\<open>ctx.shutdown()\<close> is not called anywhere in the run.
\<close>

theorem dial_once_and_abort_on_failure:
  assumes "connect w = Inr ()"
    and "job_metadata ctx = Some text" and "text \<noteq> []"
    and "json_loads w text = Inr (PyDict entries)"
    and "map_of entries ''phone_number'' = Some (PyStr number)" and "number \<noteq> []"
    and "CreateSIPParticipantRequest (room_name ctx) (PyStr number) = Inr req"
  shows "filter is_dial (snd (entrypoint w ctx)) = [CreateSIPParticipant req]
       \<and> (\<forall>e. create_sip_participant w req = Inl e \<longrightarrow>
              filter is_session_construction (snd (entrypoint w ctx)) = []
            \<and> filter is_session_start (snd (entrypoint w ctx)) = []
            \<and> filter is_greeting (snd (entrypoint w ctx)) = []
            \<and> fst (entrypoint w ctx) = (if is_TwirpError e then shutdown w else Inl e)
            \<and> snd (entrypoint w ctx) =
                Connect # snd (start_egress w ctx)
                  @ [Print (''Attempting to place outbound call to: '' @ number),
                     CreateSIPParticipant req]
                  @ (if is_TwirpError e
                     then [Print (''Error creating SIP participant: '' @ twirp_message e),
                           Shutdown]
                     else [])
            \<and> filter is_shutdown (snd (entrypoint w ctx))
                = (if is_TwirpError e then [Shutdown] else []))
       \<and> (\<forall>message shown. create_sip_participant w req = Inl (TwirpError message shown) \<longrightarrow>
              fst (entrypoint w ctx) = shutdown w
            \<and> (shutdown w = Inr () \<longrightarrow> fst (entrypoint w ctx) = Inr ())
            \<and> snd (entrypoint w ctx) =
                Connect # snd (start_egress w ctx)
                  @ [Print (''Attempting to place outbound call to: '' @ number),
                     CreateSIPParticipant req,
                     Print (''Error creating SIP participant: '' @ message),
                     Shutdown])"
proof -
  have r: "resolve_phone_number w ctx = (Inr (PyStr number), [])"
    using assms(2-5) by (simp add: resolve_dict)
  have req: "req = \<lparr> sip_room_name = room_name ctx, sip_trunk_id = ''ST_p7QcFHJKXXUM'',
                      sip_call_to = number, participant_identity = number,
                      wait_until_answered = True \<rparr>"
    using assms(7) by (simp add: CreateSIPParticipantRequest_def)
  have e: "filter is_session_construction (snd (start_egress w ctx)) = []"
    "filter is_session_start (snd (start_egress w ctx)) = []"
    "filter is_greeting (snd (start_egress w ctx)) = []"
    "filter is_shutdown (snd (start_egress w ctx)) = []"
    by (simp_all add: start_egress_filter)
  have once: "filter is_dial (snd (entrypoint w ctx)) = [CreateSIPParticipant req]"
    using assms(1,6) r req by (simp add: entrypoint_dials handle_call_dials)
  have run: "entrypoint w ctx =
           (if is_TwirpError x then shutdown w else Inl x,
            Connect # snd (start_egress w ctx)
              @ [Print (''Attempting to place outbound call to: '' @ number),
                 CreateSIPParticipant req]
              @ (if is_TwirpError x
                 then [Print (''Error creating SIP participant: '' @ twirp_message x), Shutdown]
                 else []))"
    if "create_sip_participant w req = Inl x" for x
    using that r req failed_dial_run [of w ctx number x] assms(1,6) by simp
  have failed: "filter is_session_construction (snd (entrypoint w ctx)) = []
            \<and> filter is_session_start (snd (entrypoint w ctx)) = []
            \<and> filter is_greeting (snd (entrypoint w ctx)) = []
            \<and> fst (entrypoint w ctx) = (if is_TwirpError x then shutdown w else Inl x)
            \<and> snd (entrypoint w ctx) =
                Connect # snd (start_egress w ctx)
                  @ [Print (''Attempting to place outbound call to: '' @ number),
                     CreateSIPParticipant req]
                  @ (if is_TwirpError x
                     then [Print (''Error creating SIP participant: '' @ twirp_message x),
                           Shutdown]
                     else [])
            \<and> filter is_shutdown (snd (entrypoint w ctx))
                = (if is_TwirpError x then [Shutdown] else [])"
    if "create_sip_participant w req = Inl x" for x
    by (simp add: run [OF that] e)
  have twirp: "fst (entrypoint w ctx) = shutdown w
            \<and> (shutdown w = Inr () \<longrightarrow> fst (entrypoint w ctx) = Inr ())
            \<and> snd (entrypoint w ctx) =
                Connect # snd (start_egress w ctx)
                  @ [Print (''Attempting to place outbound call to: '' @ number),
                     CreateSIPParticipant req,
                     Print (''Error creating SIP participant: '' @ message),
                     Shutdown]"
    if "create_sip_participant w req = Inl (TwirpError message shown)" for message shown
    by (simp add: run [OF that])
  from once failed twirp show ?thesis by blast
qed

theorem dial_once_and_abort_on_failure_witness:
  "filter is_dial (snd (entrypoint unanswered_world outbound_job))
     = [CreateSIPParticipant
          \<lparr> sip_room_name = ''room-1'', sip_trunk_id = ''ST_p7QcFHJKXXUM'',
            sip_call_to = ''+15550100'', participant_identity = ''+15550100'',
            wait_until_answered = True \<rparr>]
   \<and> filter is_session_construction (snd (entrypoint unanswered_world outbound_job)) = []
   \<and> filter is_session_start (snd (entrypoint unanswered_world outbound_job)) = []
   \<and> filter is_greeting (snd (entrypoint unanswered_world outbound_job)) = []
   \<and> filter is_shutdown (snd (entrypoint unanswered_world outbound_job)) = [Shutdown]
   \<and> fst (entrypoint unanswered_world outbound_job) = Inr ()
   \<and> snd (entrypoint unanswered_world outbound_job) =
        Connect # snd (start_egress unanswered_world outbound_job)
          @ [Print ''Attempting to place outbound call to: +15550100'',
             CreateSIPParticipant
               \<lparr> sip_room_name = ''room-1'', sip_trunk_id = ''ST_p7QcFHJKXXUM'',
                 sip_call_to = ''+15550100'', participant_identity = ''+15550100'',
                 wait_until_answered = True \<rparr>,
             Print ''Error creating SIP participant: busy'',
             Shutdown]"
proof -
  have h: "connect unanswered_world = Inr ()"
    \<open>job_metadata outbound_job = Some ''{"phone_number": "+15550100"}''\<close>
    \<open>''{"phone_number": "+15550100"}'' \<noteq> ([] :: string)\<close>
    \<open>json_loads unanswered_world ''{"phone_number": "+15550100"}''
       = Inr (PyDict [(''phone_number'', PyStr ''+15550100'')])\<close>
    "map_of [(''phone_number'', PyStr ''+15550100'')] ''phone_number'' = Some (PyStr ''+15550100'')"
    "''+15550100'' \<noteq> ([] :: string)"
    "CreateSIPParticipantRequest (room_name outbound_job) (PyStr ''+15550100'')
       = Inr \<lparr> sip_room_name = ''room-1'', sip_trunk_id = ''ST_p7QcFHJKXXUM'',
               sip_call_to = ''+15550100'', participant_identity = ''+15550100'',
               wait_until_answered = True \<rparr>"
    by (simp_all add: unanswered_world_def outbound_job_def quiet_world_simps
          example_loads_simps CreateSIPParticipantRequest_def)
  have d: "create_sip_participant unanswered_world r
             = Inl (TwirpError ''busy'' ''TwirpError(code=unavailable, message=busy, status=503)'')"
    "shutdown unanswered_world = Inr ()" for r
    by (simp_all add: unanswered_world_def quiet_world_simps)
  note t = dial_once_and_abort_on_failure [OF h]
  from t have a: "filter is_dial (snd (entrypoint unanswered_world outbound_job))
     = [CreateSIPParticipant
          \<lparr> sip_room_name = ''room-1'', sip_trunk_id = ''ST_p7QcFHJKXXUM'',
            sip_call_to = ''+15550100'', participant_identity = ''+15550100'',
            wait_until_answered = True \<rparr>]"
    by (rule conjunct1)
  from t d(1) have b: "filter is_session_construction (snd (entrypoint unanswered_world outbound_job)) = []
   \<and> filter is_session_start (snd (entrypoint unanswered_world outbound_job)) = []
   \<and> filter is_greeting (snd (entrypoint unanswered_world outbound_job)) = []"
    by metis
  from t d(1) have c: "fst (entrypoint unanswered_world outbound_job) = shutdown unanswered_world
   \<and> snd (entrypoint unanswered_world outbound_job) =
        Connect # snd (start_egress unanswered_world outbound_job)
          @ [Print (''Attempting to place outbound call to: '' @ ''+15550100''),
             CreateSIPParticipant
               \<lparr> sip_room_name = ''room-1'', sip_trunk_id = ''ST_p7QcFHJKXXUM'',
                 sip_call_to = ''+15550100'', participant_identity = ''+15550100'',
                 wait_until_answered = True \<rparr>,
             Print (''Error creating SIP participant: '' @ ''busy''),
             Shutdown]"
    by blast
  from c d(2) have c1: "fst (entrypoint unanswered_world outbound_job) = Inr ()"
    by simp
  from c have c2: "snd (entrypoint unanswered_world outbound_job) =
        Connect # snd (start_egress unanswered_world outbound_job)
          @ [Print ''Attempting to place outbound call to: +15550100'',
             CreateSIPParticipant
               \<lparr> sip_room_name = ''room-1'', sip_trunk_id = ''ST_p7QcFHJKXXUM'',
                 sip_call_to = ''+15550100'', participant_identity = ''+15550100'',
                 wait_until_answered = True \<rparr>,
             Print ''Error creating SIP participant: busy'',
             Shutdown]"
    by simp
  from t d(1) have "filter is_shutdown (snd (entrypoint unanswered_world outbound_job))
      = (if is_TwirpError (TwirpError ''busy'' ''TwirpError(code=unavailable, message=busy, status=503)'')
         then [Shutdown] else [])"
    by metis
  then have s: "filter is_shutdown (snd (entrypoint unanswered_world outbound_job)) = [Shutdown]"
    by simp
  from a b s c1 c2 show ?thesis by blast
qed

text \<open>
  Claim C2. The recording request never raises out of its \<^verbatim>\<open>try\<close> block: a failure of
  any of its calls is caught and logged as "Error starting egress: ..." (the last event
  of the block), and discarded. The events of the block are exactly the egress calls made
  so far and one log line; the handler makes no other call, and none of them is
  \<^verbatim>\<open>ctx.shutdown()\<close>. A connected run is the connect, the block, and the rest of
  \<^verbatim>\<open>entrypoint\<close>, and the rest does not depend on the egress client: replacing its
  behaviour by any other changes neither the result of \<^verbatim>\<open>entrypoint\<close> nor the events
  that follow the block. An inbound job whose Session calls succeed therefore still starts
  the Session and requests the greeting, whatever the egress client did.
\<close>

theorem egress_failure_is_discarded:
  "fst (start_egress w ctx) = Inr ()
   \<and> snd (start_egress w ctx) =
       (case LiveKitAPI w of
          Inl e \<Rightarrow> [NewLiveKitAPI, Print (''Error starting egress: '' @ exc_str e)]
        | Inr lkapi \<Rightarrow>
            [NewLiveKitAPI, Print ''Starting room egress...'',
             StartRoomCompositeEgress (egress_request_of w ctx)]
            @ (case start_room_composite_egress w (egress_request_of w ctx) of
                 Inl e \<Rightarrow> [Print (''Error starting egress: '' @ exc_str e)]
               | Inr info \<Rightarrow>
                   AClose
                   # (case aclose w of
                        Inl e \<Rightarrow> [Print (''Error starting egress: '' @ exc_str e)]
                      | Inr u \<Rightarrow>
                          [Print (''Egress started successfully. Egress ID: ''
                                    @ str_opt (py_or (egress_id info) (egressId info)))])))
   \<and> filter is_shutdown (snd (start_egress w ctx)) = []
   \<and> (\<forall>e. egress_failure w ctx = Some e \<longrightarrow>
         (\<exists>before. snd (start_egress w ctx)
                     = before @ [Print (''Error starting egress: '' @ exc_str e)]))
   \<and> snd (entrypoint w ctx) =
       (case connect w of
          Inl e \<Rightarrow> [Connect]
        | Inr u \<Rightarrow> Connect # snd (start_egress w ctx) @ snd (handle_call w ctx))
   \<and> handle_call (w\<lparr> LiveKitAPI := a, start_room_composite_egress := b, aclose := c \<rparr>) ctx
       = handle_call w ctx
   \<and> fst (entrypoint (w\<lparr> LiveKitAPI := a, start_room_composite_egress := b, aclose := c \<rparr>) ctx)
       = fst (entrypoint w ctx)
   \<and> drop (Suc (length (snd (start_egress
                                (w\<lparr> LiveKitAPI := a, start_room_composite_egress := b, aclose := c \<rparr>) ctx))))
        (snd (entrypoint (w\<lparr> LiveKitAPI := a, start_room_composite_egress := b, aclose := c \<rparr>) ctx))
       = drop (Suc (length (snd (start_egress w ctx)))) (snd (entrypoint w ctx))
   \<and> (connect w = Inr () \<and> call_intent w ctx = Some Inbound
        \<and> (\<forall>p. plugin_init w p = Inr ()) \<and> (\<forall>s. AgentSession w s = Inr ())
        \<and> Agent_init w Assistant_instructions = Inr () \<and> (\<forall>a. session_start w a = Inr ()) \<longrightarrow>
          fst (entrypoint w ctx) = generate_reply w ''Greet the user and offer your assistance.''
        \<and> snd (entrypoint w ctx) =
            Connect # snd (start_egress w ctx) @ snd (resolve_phone_number w ctx)
              @ session_setup ctx @ [GenerateReply ''Greet the user and offer your assistance.''])"
proof -
  have inbound:
    "fst (entrypoint w ctx) = generate_reply w ''Greet the user and offer your assistance.''
        \<and> snd (entrypoint w ctx) =
            Connect # snd (start_egress w ctx) @ snd (resolve_phone_number w ctx)
              @ session_setup ctx @ [GenerateReply ''Greet the user and offer your assistance.'']"
    if c: "connect w = Inr ()" and i: "call_intent w ctx = Some Inbound"
      and ok: "\<forall>p. plugin_init w p = Inr ()" "\<forall>s. AgentSession w s = Inr ()"
        "Agent_init w Assistant_instructions = Inr ()" "\<forall>a. session_start w a = Inr ()"
  proof -
    from i obtain phone_number where r: "fst (resolve_phone_number w ctx) = Inr phone_number"
      and f: "\<not> truthy phone_number"
      by (auto simp: call_intent_def split: sum.splits if_splits)
    from entrypoint_inbound_ok [OF c r f ok] show ?thesis by simp
  qed
  have caught: "fst (start_egress w ctx) = Inr ()"
    by (rule start_egress_returns)
  note events = start_egress_events [of w ctx]
  have quiet: "filter is_shutdown (snd (start_egress w ctx)) = []"
    by (simp add: start_egress_filter)
  have logged: "\<forall>e. egress_failure w ctx = Some e \<longrightarrow>
         (\<exists>before. snd (start_egress w ctx)
                     = before @ [Print (''Error starting egress: '' @ exc_str e)])"
    by (intro allI impI) (rule start_egress_logs_failure)
  note whole = entrypoint_events [of w ctx]
  have same: "handle_call (w\<lparr> LiveKitAPI := a, start_room_composite_egress := b, aclose := c \<rparr>) ctx
       = handle_call w ctx"
    by (rule handle_call_without_egress)
  have result: "fst (entrypoint (w\<lparr> LiveKitAPI := a, start_room_composite_egress := b, aclose := c \<rparr>) ctx)
       = fst (entrypoint w ctx)"
    by (simp add: entrypoint_result handle_call_without_egress cong: sum.case_cong)
  have rest: "drop (Suc (length (snd (start_egress
                                (w\<lparr> LiveKitAPI := a, start_room_composite_egress := b, aclose := c \<rparr>) ctx))))
        (snd (entrypoint (w\<lparr> LiveKitAPI := a, start_room_composite_egress := b, aclose := c \<rparr>) ctx))
       = drop (Suc (length (snd (start_egress w ctx)))) (snd (entrypoint w ctx))"
    by (simp add: entrypoint_after_egress handle_call_without_egress cong: sum.case_cong)
  from caught events quiet logged whole same result rest inbound show ?thesis
    by (intro conjI) blast+
qed

theorem egress_failure_is_discarded_witness:
  "egress_failure failing_egress_world inbound_job
     = Some (TwirpError ''invalid token'' ''TwirpError(code=unauthenticated, message=invalid token, status=401)'')
   \<and> call_intent failing_egress_world inbound_job = Some Inbound
   \<and> filter is_shutdown (snd (entrypoint failing_egress_world inbound_job)) = []
   \<and> fst (entrypoint failing_egress_world inbound_job) = Inr ()
   \<and> snd (entrypoint failing_egress_world inbound_job) =
        [Connect, NewLiveKitAPI, Print ''Starting room egress...'',
         StartRoomCompositeEgress (egress_request_of failing_egress_world inbound_job),
         Print ''Error starting egress: TwirpError(code=unauthenticated, message=invalid token, status=401)'']
        @ session_setup inbound_job
        @ [GenerateReply ''Greet the user and offer your assistance.'']"
proof -
  have f: "egress_failure failing_egress_world inbound_job
     = Some (TwirpError ''invalid token'' ''TwirpError(code=unauthenticated, message=invalid token, status=401)'')"
    by (simp add: egress_failure_def failing_egress_world_simps)
  have r: "resolve_phone_number failing_egress_world inbound_job = (Inr PyNone, [])"
    by (simp add: resolve_no_metadata inbound_job_def)
  then have i: "call_intent failing_egress_world inbound_job = Some Inbound"
    by (simp add: call_intent_def)
  have e: "snd (start_egress failing_egress_world inbound_job) =
        [NewLiveKitAPI, Print ''Starting room egress...'',
         StartRoomCompositeEgress (egress_request_of failing_egress_world inbound_job),
         Print ''Error starting egress: TwirpError(code=unauthenticated, message=invalid token, status=401)'']"
    by (simp add: start_egress_def run_simps failing_egress_world_simps)
  have ok: "connect failing_egress_world = Inr () \<and> call_intent failing_egress_world inbound_job = Some Inbound
        \<and> (\<forall>p. plugin_init failing_egress_world p = Inr ()) \<and> (\<forall>s. AgentSession failing_egress_world s = Inr ())
        \<and> Agent_init failing_egress_world Assistant_instructions = Inr ()
        \<and> (\<forall>a. session_start failing_egress_world a = Inr ())"
    using i by (simp add: failing_egress_world_simps)
  from egress_failure_is_discarded [of failing_egress_world inbound_job] ok
  have d: "fst (entrypoint failing_egress_world inbound_job)
             = generate_reply failing_egress_world ''Greet the user and offer your assistance.''
        \<and> snd (entrypoint failing_egress_world inbound_job) =
            Connect # snd (start_egress failing_egress_world inbound_job)
              @ snd (resolve_phone_number failing_egress_world inbound_job)
              @ session_setup inbound_job @ [GenerateReply ''Greet the user and offer your assistance.'']"
    by blast
  from d have d1: "fst (entrypoint failing_egress_world inbound_job) = Inr ()"
    by (simp add: failing_egress_world_simps)
  from d e r have d2: "snd (entrypoint failing_egress_world inbound_job) =
        [Connect, NewLiveKitAPI, Print ''Starting room egress...'',
         StartRoomCompositeEgress (egress_request_of failing_egress_world inbound_job),
         Print ''Error starting egress: TwirpError(code=unauthenticated, message=invalid token, status=401)'']
        @ session_setup inbound_job
        @ [GenerateReply ''Greet the user and offer your assistance.'']"
    by simp
  from d2 have q: "filter is_shutdown (snd (entrypoint failing_egress_world inbound_job)) = []"
    by (simp add: session_setup_def)
  from f i q d1 d2 show ?thesis by blast
qed

text \<open>
  Claim C3 at the metadata \<^verbatim>\<open>[]\<close>: valid JSON that is no object and so has no
  \<^verbatim>\<open>phone_number\<close> field. \<^verbatim>\<open>json.loads\<close> returns a list, \<^verbatim>\<open>metadata.get\<close> raises
  \<^verbatim>\<open>AttributeError\<close>, which \<^verbatim>\<open>except json.JSONDecodeError\<close> does not catch: no call
  intent is resolved and the job ends with the exception, before any Session is started.
\<close>

theorem list_metadata_is_fatal:
  "call_intent quiet_world list_metadata_job = None
   \<and> fst (entrypoint quiet_world list_metadata_job)
       = Inl (AttributeError (quoted ''list'' @ '' object has no attribute '' @ quoted ''get''))
   \<and> filter is_session_start (snd (entrypoint quiet_world list_metadata_job)) = []
   \<and> filter is_greeting (snd (entrypoint quiet_world list_metadata_job)) = []"
proof -
  have r: "resolve_phone_number quiet_world list_metadata_job
             = (Inl (AttributeError (quoted ''list'' @ '' object has no attribute '' @ quoted ''get'')), [])"
    by (simp add: resolve_phone_number_def list_metadata_job_def quiet_world_simps
          example_loads_simps run_simps)
  then have h: "handle_call quiet_world list_metadata_job
             = (Inl (AttributeError (quoted ''list'' @ '' object has no attribute '' @ quoted ''get'')), [])"
    by (simp add: handle_call_raises)
  have c: "connect quiet_world = Inr ()" by (simp add: quiet_world_simps)
  show ?thesis
    using r h by (simp add: call_intent_def entrypoint_connected [OF c] start_egress_filter)
qed

text \<open>
  Claim C5. The greeting requests of a run are exactly one request, with the fixed
  instructions, when the call intent is inbound and \<^verbatim>\<open>session.start\<close> has returned, and
  none otherwise: so never more than one, and none for an outbound intent.
\<close>

theorem greeting_only_for_started_inbound_session:
  "filter is_greeting (snd (entrypoint w ctx)) =
     (if call_intent w ctx = Some Inbound \<and> session_started w (snd (entrypoint w ctx))
      then [GenerateReply ''Greet the user and offer your assistance.''] else [])"
proof (cases "connect w")
  case (Inl e)
  then show ?thesis
    by (simp add: entrypoint_not_connected session_started_def)
next
  case (Inr u)
  then have c: "connect w = Inr ()" by simp
  have e: "filter is_greeting (snd (start_egress w ctx)) = []"
    "\<not> session_started w (snd (start_egress w ctx))"
    by (simp_all add: start_egress_filter not_started)
  have "session_started w (snd (entrypoint w ctx)) = session_started w (snd (handle_call w ctx))"
    using e(2) by (simp add: entrypoint_connected [OF c] session_started_def)
  then show ?thesis
    using e(1) by (simp add: entrypoint_connected [OF c] handle_call_greeting)
qed

theorem greeting_only_for_started_inbound_session_witness:
  "filter is_greeting (snd (entrypoint quiet_world inbound_job))
     = [GenerateReply ''Greet the user and offer your assistance.'']
   \<and> filter is_greeting (snd (entrypoint quiet_world outbound_job)) = []"
proof -
  have i: "resolve_phone_number quiet_world inbound_job = (Inr PyNone, [])"
    by (simp add: resolve_no_metadata inbound_job_def)
  have o: "resolve_phone_number quiet_world outbound_job = (Inr (PyStr ''+15550100''), [])"
    by (simp add: resolve_dict [where entries = "[(''phone_number'', PyStr ''+15550100'')]"]
          outbound_job_def quiet_world_simps example_loads_simps)
  have "entrypoint quiet_world inbound_job =
          (Inr (), Connect # snd (start_egress quiet_world inbound_job)
                     @ session_setup inbound_job
                     @ [GenerateReply ''Greet the user and offer your assistance.''])"
    using entrypoint_inbound_ok [of quiet_world inbound_job PyNone] i
    by (simp add: quiet_world_simps)
  then have started: "session_started quiet_world (snd (entrypoint quiet_world inbound_job))"
    by (simp add: session_started_def session_setup_def quiet_world_simps)
  have inbound: "call_intent quiet_world inbound_job = Some Inbound"
    using i by (simp add: call_intent_def)
  have outbound: "call_intent quiet_world outbound_job \<noteq> Some Inbound"
    using o by (simp add: call_intent_def)
  from greeting_only_for_started_inbound_session [of quiet_world inbound_job]
       greeting_only_for_started_inbound_session [of quiet_world outbound_job]
       started inbound outbound
  show ?thesis by simp
qed

text \<open>
  Claim C9. Every dial request that \<^verbatim>\<open>entrypoint\<close> sends carries the fixed trunk
  identifier, the resolved phone number as destination, the same number as participant
  identity, wait-until-answered set, and the room of the job.
\<close>

theorem dial_request_fields:
  assumes "CreateSIPParticipant req \<in> set (snd (entrypoint w ctx))"
  shows "sip_trunk_id req = ''ST_p7QcFHJKXXUM''
       \<and> call_intent w ctx = Some (Outbound (PyStr (sip_call_to req)))
       \<and> participant_identity req = sip_call_to req
       \<and> wait_until_answered req
       \<and> sip_room_name req = room_name ctx"
proof -
  from assms have "CreateSIPParticipant req \<in> set (filter is_dial (snd (entrypoint w ctx)))"
    by simp
  then have "CreateSIPParticipant req \<in> set (filter is_dial (snd (handle_call w ctx)))"
    by (simp only: entrypoint_dials split: sum.splits) simp
  then show ?thesis
    by (auto simp: handle_call_dials call_intent_def split: sum.splits py_value.splits if_splits)
qed

theorem dial_request_fields_witness:
  "CreateSIPParticipant
     \<lparr> sip_room_name = ''room-1'', sip_trunk_id = ''ST_p7QcFHJKXXUM'',
       sip_call_to = ''+15550100'', participant_identity = ''+15550100'',
       wait_until_answered = True \<rparr> \<in> set (snd (entrypoint quiet_world outbound_job))
   \<and> call_intent quiet_world outbound_job = Some (Outbound (PyStr ''+15550100''))"
proof -
  have r: "resolve_phone_number quiet_world outbound_job = (Inr (PyStr ''+15550100''), [])"
    by (simp add: resolve_dict [where entries = "[(''phone_number'', PyStr ''+15550100'')]"]
          outbound_job_def quiet_world_simps example_loads_simps)
  have "filter is_dial (snd (entrypoint quiet_world outbound_job))
          = [CreateSIPParticipant
               \<lparr> sip_room_name = ''room-1'', sip_trunk_id = ''ST_p7QcFHJKXXUM'',
                 sip_call_to = ''+15550100'', participant_identity = ''+15550100'',
                 wait_until_answered = True \<rparr>]"
    by (simp add: entrypoint_dials handle_call_dials r quiet_world_simps)
       (simp add: outbound_job_def)
  then have "CreateSIPParticipant
     \<lparr> sip_room_name = ''room-1'', sip_trunk_id = ''ST_p7QcFHJKXXUM'',
       sip_call_to = ''+15550100'', participant_identity = ''+15550100'',
       wait_until_answered = True \<rparr> \<in> set (filter is_dial (snd (entrypoint quiet_world outbound_job)))"
    by simp
  then have m: "CreateSIPParticipant
     \<lparr> sip_room_name = ''room-1'', sip_trunk_id = ''ST_p7QcFHJKXXUM'',
       sip_call_to = ''+15550100'', participant_identity = ''+15550100'',
       wait_until_answered = True \<rparr> \<in> set (snd (entrypoint quiet_world outbound_job))"
    by simp
  from dial_request_fields [OF m] m show ?thesis by simp
qed

text \<open>
  Claim C10. When the metadata parses to an object whose \<^verbatim>\<open>phone_number\<close> is the empty
  string, the intent is inbound and the run is the run of the same job without metadata:
  no dial is attempted and, when the room connects and the Session calls succeed, the
  Session is started and the greeting is requested.
\<close>

theorem empty_phone_number_is_inbound:
  assumes "job_metadata ctx = Some text" and "text \<noteq> []"
    and "json_loads w text = Inr (PyDict entries)"
    and "map_of entries ''phone_number'' = Some (PyStr [])"
  shows "call_intent w ctx = Some Inbound
       \<and> entrypoint w ctx = entrypoint w (ctx\<lparr> job_metadata := None \<rparr>)
       \<and> filter is_dial (snd (entrypoint w ctx)) = []
       \<and> (connect w = Inr () \<and> (\<forall>p. plugin_init w p = Inr ()) \<and> (\<forall>s. AgentSession w s = Inr ())
            \<and> Agent_init w Assistant_instructions = Inr () \<and> (\<forall>a. session_start w a = Inr ()) \<longrightarrow>
            fst (entrypoint w ctx) = generate_reply w ''Greet the user and offer your assistance.''
          \<and> snd (entrypoint w ctx) =
              Connect # snd (start_egress w ctx) @ session_setup ctx
                @ [GenerateReply ''Greet the user and offer your assistance.''])"
proof -
  have r: "resolve_phone_number w ctx = (Inr (PyStr []), [])"
    using assms by (simp add: resolve_dict)
  have r': "resolve_phone_number w (ctx\<lparr> job_metadata := None \<rparr>) = (Inr PyNone, [])"
    by (simp add: resolve_no_metadata)
  have h: "handle_call w ctx = start_session w ctx (PyStr [])"
    using r by (simp add: handle_call_inbound)
  have h': "handle_call w (ctx\<lparr> job_metadata := None \<rparr>)
              = start_session w (ctx\<lparr> job_metadata := None \<rparr>) PyNone"
    using r' by (simp add: handle_call_inbound)
  have same: "handle_call w (ctx\<lparr> job_metadata := None \<rparr>) = handle_call w ctx"
    unfolding h h' by (rule start_session_same) simp_all
  have a: "call_intent w ctx = Some Inbound"
    using r by (simp add: call_intent_def)
  have b: "entrypoint w ctx = entrypoint w (ctx\<lparr> job_metadata := None \<rparr>)"
    by (simp add: entrypoint_def same start_egress_room)
  have c: "filter is_dial (snd (entrypoint w ctx)) = []"
    using r by (simp add: entrypoint_dials handle_call_dials split: sum.splits)
  have d: "fst (entrypoint w ctx) = generate_reply w ''Greet the user and offer your assistance.''
          \<and> snd (entrypoint w ctx) =
              Connect # snd (start_egress w ctx) @ session_setup ctx
                @ [GenerateReply ''Greet the user and offer your assistance.'']"
    if "connect w = Inr ()" "\<forall>p. plugin_init w p = Inr ()" "\<forall>s. AgentSession w s = Inr ()"
       "Agent_init w Assistant_instructions = Inr ()" "\<forall>a. session_start w a = Inr ()"
    using that h by (simp add: entrypoint_connected start_session_ok)
  from a b c d show ?thesis by blast
qed

theorem empty_phone_number_is_inbound_witness:
  "call_intent quiet_world empty_number_job = Some Inbound
   \<and> filter is_dial (snd (entrypoint quiet_world empty_number_job)) = []
   \<and> fst (entrypoint quiet_world empty_number_job) = Inr ()
   \<and> snd (entrypoint quiet_world empty_number_job) =
        Connect # snd (start_egress quiet_world empty_number_job) @ session_setup empty_number_job
          @ [GenerateReply ''Greet the user and offer your assistance.'']"
proof -
  have h: \<open>job_metadata empty_number_job = Some ''{"phone_number": ""}''\<close>
    \<open>''{"phone_number": ""}'' \<noteq> ([] :: string)\<close>
    \<open>json_loads quiet_world ''{"phone_number": ""}'' = Inr (PyDict [(''phone_number'', PyStr [])])\<close>
    "map_of [(''phone_number'', PyStr [])] ''phone_number'' = Some (PyStr [])"
    by (simp_all add: empty_number_job_def quiet_world_simps example_loads_simps)
  note t = empty_phone_number_is_inbound [OF h]
  have ok: "connect quiet_world = Inr () \<and> (\<forall>p. plugin_init quiet_world p = Inr ())
            \<and> (\<forall>s. AgentSession quiet_world s = Inr ())
            \<and> Agent_init quiet_world Assistant_instructions = Inr ()
            \<and> (\<forall>a. session_start quiet_world a = Inr ())"
    by (simp add: quiet_world_simps)
  from t ok have d: "fst (entrypoint quiet_world empty_number_job)
            = generate_reply quiet_world ''Greet the user and offer your assistance.''
          \<and> snd (entrypoint quiet_world empty_number_job) =
              Connect # snd (start_egress quiet_world empty_number_job) @ session_setup empty_number_job
                @ [GenerateReply ''Greet the user and offer your assistance.'']"
    by blast
  then have d1: "fst (entrypoint quiet_world empty_number_job) = Inr ()"
    by (simp add: quiet_world_simps)
  from t d d1 show ?thesis by blast
qed

end
